theory Spec2Isabelle
  imports Main "HOL-Library.AList"
begin

section \<open>JavaScript values and strings\<close>

text \<open>
  A nullable JavaScript value. \<open>Undefined\<close> is an absent property (or the result of a
  function that falls off its end), \<open>Null\<close> is JSON \<open>null\<close>. Both are falsy; under
  \<open>===\<close> they are different values.
\<close>

datatype 'a js = Undefined | Null | Val 'a

text \<open>\<open>x || d\<close> for a value whose defined forms are all truthy (objects and arrays).\<close>

fun orElse :: "'a js \<Rightarrow> 'a \<Rightarrow> 'a" where
  "orElse (Val v) d = v"
| "orElse Undefined d = d"
| "orElse Null d = d"

text \<open>\<open>x || d\<close> for a string: the empty string is falsy as well.\<close>

fun strOr :: "string js \<Rightarrow> string \<Rightarrow> string" where
  "strOr (Val s) d = (if s = [] then d else s)"
| "strOr Undefined d = d"
| "strOr Null d = d"

text \<open>\<open>x || 0\<close> for a number.\<close>

fun numOr0 :: "int js \<Rightarrow> int" where
  "numOr0 (Val n) = n"
| "numOr0 Undefined = 0"
| "numOr0 Null = 0"

text \<open>\<open>String(n)\<close> and template interpolation of a non-negative integer.\<close>

definition digit_char :: "nat \<Rightarrow> char" where
  "digit_char d = ''0123456789'' ! d"

fun show_nat :: "nat \<Rightarrow> string" where
  "show_nat n =
     (if n < 10 then [digit_char n] else show_nat (n div 10) @ [digit_char (n mod 10)])"

declare show_nat.simps [simp del]

text \<open>\<open>s.includes(p)\<close>: \<open>p\<close> occurs in \<open>s\<close> as a contiguous piece.\<close>

fun starts :: "string \<Rightarrow> string \<Rightarrow> bool" where
  "starts s [] = True"
| "starts [] (p # ps) = False"
| "starts (c # cs) (p # ps) = (c = p \<and> starts cs ps)"

fun str_includes :: "string \<Rightarrow> string \<Rightarrow> bool" where
  "str_includes [] p = (p = [])"
| "str_includes (c # cs) p = (starts (c # cs) p \<or> str_includes cs p)"

text \<open>
  \<open>s.toLowerCase()\<close> on the ASCII letters. Characters are bytes here (a text is its
  UTF-8 bytes), so the case mapping of letters outside ASCII, which JavaScript also
  performs, is not modelled.
\<close>

definition lower_char :: "char \<Rightarrow> char" where
  "lower_char c =
     (case map_of (zip ''ABCDEFGHIJKLMNOPQRSTUVWXYZ'' ''abcdefghijklmnopqrstuvwxyz'') c of
        Some l \<Rightarrow> l
      | None \<Rightarrow> c)"

definition toLowerCase :: "string \<Rightarrow> string" where
  "toLowerCase s = map lower_char s"

text \<open>
  \<open>s.trim()\<close>: the white space of ASCII (tab, line feed, vertical tab, form feed,
  carriage return, space) is removed at both ends.
\<close>

definition is_space :: "char \<Rightarrow> bool" where
  "is_space c = (c \<in> set [CHR 0x09, CHR 0x0A, CHR 0x0B, CHR 0x0C, CHR 0x0D, CHR '' ''])"

definition trim :: "string \<Rightarrow> string" where
  "trim s = rev (dropWhile is_space (rev (dropWhile is_space s)))"

text \<open>\<open>s.split(c)\<close> at a one-character separator; the result is never empty.\<close>

fun split_at :: "char \<Rightarrow> string \<Rightarrow> string list" where
  "split_at sep [] = [[]]"
| "split_at sep (c # cs) =
     (if c = sep then [] # split_at sep cs
      else (case split_at sep cs of
              p # ps \<Rightarrow> (c # p) # ps
            | [] \<Rightarrow> [[c]]))"

text \<open>
  \<open>s.length\<close> counts UTF-16 code units. A text is held here as its UTF-8 bytes (of
  well-formed text), so a continuation byte \<open>10xxxxxx\<close> counts nothing, the lead byte
  \<open>11110xxx\<close> of a four-byte sequence counts two, and every other byte one.
\<close>

definition utf16_units :: "char \<Rightarrow> nat" where
  "utf16_units c =
     (if digit7 c \<and> \<not> digit6 c then 0
      else if digit7 c \<and> digit6 c \<and> digit5 c \<and> digit4 c then 2
      else 1)"

definition js_length :: "string \<Rightarrow> nat" where
  "js_length s = sum_list (map utf16_units s)"

text \<open>
  A plain object \<open>{}\<close> inherits the members of \<open>Object.prototype\<close>: reading one of
  these names from it gives a function (or, for \<open>__proto__\<close>, the prototype), which is
  truthy, although the object has no such property of its own.
\<close>

definition objectPrototypeMembers :: "string list" where
  "objectPrototypeMembers =
     [''constructor'', ''__defineGetter__'', ''__defineSetter__'', ''hasOwnProperty'',
      ''__lookupGetter__'', ''__lookupSetter__'', ''isPrototypeOf'', ''propertyIsEnumerable'',
      ''toString'', ''valueOf'', ''__proto__'', ''toLocaleString'']"

text \<open>\<open>xs[i]\<close>: reading past the end of an array gives \<open>undefined\<close>.\<close>

definition nth_opt :: "'a list \<Rightarrow> nat \<Rightarrow> 'a option" where
  "nth_opt xs i = (if i < length xs then Some (xs ! i) else None)"

section \<open>The fetch layer\<close>

text \<open>
  What a run does to the outside world is recorded as a list of events: a request to the
  stats API (by endpoint), a timer wait in milliseconds, and a plain HTTPS GET (by URL).
\<close>

datatype event = Fetch string | Sleep nat | HttpsGet string

datatype error = Error string

text \<open>
  The network is an input. One call of \<open>fetchWithRetry\<close> is given the outcomes of its
  own successive \<open>fetchJSON\<close> attempts: attempt \<open>i\<close> either rejects with an error
  (\<open>Inl\<close>) or resolves to the parsed body.
\<close>

type_synonym 'a attempts = "nat \<Rightarrow> error + 'a js"

text \<open>
  \<open>for (let i = 0; i < retries; i++) { try { return await fetchJSON(endpoint); }
  catch (err) { if (i === retries - 1) throw err; await sleep(1000 * (i + 1)); } }\<close>
  A loop that ends without returning yields \<open>undefined\<close>.
\<close>

function fetchLoop :: "string \<Rightarrow> 'a attempts \<Rightarrow> nat \<Rightarrow> nat \<Rightarrow> (error + 'a js) \<times> event list" where
  "fetchLoop endpoint att retries i =
     (if i < retries then
        (case att i of
           Inr v \<Rightarrow> (Inr v, [Fetch endpoint])
         | Inl err \<Rightarrow>
             if i = retries - 1 then (Inl err, [Fetch endpoint])
             else (let (r, evs) = fetchLoop endpoint att retries (Suc i)
                   in (r, Fetch endpoint # Sleep (1000 * (i + 1)) # evs)))
      else (Inr Undefined, []))"
  by pat_completeness auto
termination
  by (relation "measure (\<lambda>(endpoint, att, retries, i). retries - i)") auto

declare fetchLoop.simps [simp del]

definition fetchWithRetryN :: "string \<Rightarrow> 'a attempts \<Rightarrow> nat \<Rightarrow> (error + 'a js) \<times> event list" where
  "fetchWithRetryN endpoint att retries = fetchLoop endpoint att retries 0"

text \<open>Every call in the program leaves \<open>retries\<close> at its default, 3.\<close>

definition fetchWithRetry :: "string \<Rightarrow> 'a attempts \<Rightarrow> (error + 'a js) \<times> event list" where
  "fetchWithRetry endpoint att = fetchWithRetryN endpoint att 3"

section \<open>Tracked teams\<close>

record team_cfg =
  cfg_id :: nat
  cfg_name :: string
  cfg_tag :: string

text \<open>The constant \<open>TEAMS\<close>, as the list of its entries in the order they are written.\<close>

definition TEAMS :: "(string \<times> team_cfg) list" where
  "TEAMS =
     [(''xg'', \<lparr>cfg_id = 8261500, cfg_name = ''Xtreme Gaming'', cfg_tag = ''XG''\<rparr>),
      (''yb'', \<lparr>cfg_id = 9351740, cfg_name = ''Yakult Brothers'', cfg_tag = ''YB''\<rparr>),
      (''vg'', \<lparr>cfg_id = 726228, cfg_name = ''Vici Gaming'', cfg_tag = ''VG''\<rparr>)]"

text \<open>\<open>new Set(teamKeys.map(k => TEAMS[k].id))\<close>\<close>

definition ourIds :: "nat list" where
  "ourIds = map (\<lambda>(k, cfg). cfg_id cfg) TEAMS"

section \<open>The wiki scraper\<close>

text \<open>
  Matching a regular expression against markup is the platform's work. A match block
  (the first 5000 characters of a piece of the page after the marker
  \<open><div class="match-info">\<close>) is represented by what the scraper's four expressions
  capture in it:
  \<^item> \<open>teamImg\<close>: for each successive match of the team-link expression, its second and
    third groups (the link title and the image source);
  \<^item> \<open>data_timestamp\<close>: the number written in the first \<open>data-timestamp="..."\<close>
    attribute, if there is one (\<open>parseInt\<close> of a run of digits; the rounding of numbers
    beyond \<open>2^53\<close> is not modelled);
  \<^item> \<open>tournTitle\<close>: the title captured after \<open>class="match-info-tournament"\<close>;
  \<^item> \<open>boDigit\<close>: the digit of the first \<open>(BoN)\<close>.
\<close>

record block =
  teamImg :: "(string \<times> string) list"
  data_timestamp :: "nat option"
  tournTitle :: "string option"
  boDigit :: "char option"

record upcoming_entry =
  teamKey :: string
  teamTag :: string
  opponent :: string
  tournament :: string
  bestOf :: string
  ourLogo :: "string option"
  oppLogo :: "string option"
  timestamp :: "nat option"
  dateStr :: "nat option"

text \<open>
  \<open>dateStr\<close> stands for the ISO text of \<open>new Date(timestamp * 1000)\<close>; the model keeps
  the number of milliseconds instead of formatting it.
\<close>

text \<open>
  The lookup from lower-cased names to team keys: for every team its name, its tag and the
  first word of its name. Assigning to a property that exists replaces its value and
  keeps its place, which is what \<open>AList.update\<close> does.
\<close>

definition firstWord :: "string \<Rightarrow> string" where
  "firstWord s = (case split_at CHR '' '' s of p # ps \<Rightarrow> p | [] \<Rightarrow> [])"

definition teamLookup :: "(string \<times> string) list" where
  "teamLookup =
     fold (\<lambda>(key, cfg) al.
             AList.update (toLowerCase (firstWord (cfg_name cfg))) key
               (AList.update (toLowerCase (cfg_tag cfg)) key
                  (AList.update (toLowerCase (cfg_name cfg)) key al)))
          TEAMS []"

text \<open>
  The \<open>while\<close> loop over the team links of a block. \<open>names\<close> is the set of titles in
  insertion order, \<open>logos\<close> the own properties of the object from title to logo URL.
  \<open>!teamLogos[title]\<close> holds when the object has no logo for the title and the title
  does not name an inherited member; assigning to \<open>__proto__\<close> a text has no effect.
  Where a logo is read later, a title without a logo of its own yields none: the
  inherited member that JavaScript would return there is not a logo and is not modelled.
\<close>

definition noLogoYet :: "(string \<times> string) list \<Rightarrow> string \<Rightarrow> bool" where
  "noLogoYet logos title = (map_of logos title = None \<and> title \<notin> set objectPrototypeMembers)"

definition setLogo :: "string \<Rightarrow> string \<Rightarrow> (string \<times> string) list \<Rightarrow> (string \<times> string) list" where
  "setLogo title url logos = (if title = ''__proto__'' then logos else AList.update title url logos)"

fun scanTeams :: "(string \<times> string) list \<Rightarrow> string list \<Rightarrow> (string \<times> string) list
    \<Rightarrow> string list \<times> (string \<times> string) list" where
  "scanTeams [] names logos = (names, logos)"
| "scanTeams ((m2, imgSrc) # ms) names logos =
     (let title = trim m2 in
      if str_includes title ''/'' \<or> str_includes title ''#'' then scanTeams ms names logos
      else if 2 \<le> js_length title \<and> js_length title < 40 then
        scanTeams ms
          (if title \<in> set names then names else names @ [title])
          (if noLogoYet logos title \<or> str_includes imgSrc ''darkmode''
              \<or> str_includes imgSrc ''allmode''
           then setLogo title (''https://liquipedia.net'' @ imgSrc) logos
           else logos)
      else scanTeams ms names logos)"

text \<open>The inner loop over the lookup's entries, for one lower-cased team name.\<close>

fun findPattern :: "string \<Rightarrow> (string \<times> string) list \<Rightarrow> string option" where
  "findPattern lower [] = None"
| "findPattern lower ((pattern, key) # rest) =
     (if str_includes lower pattern \<or> str_includes pattern lower then Some key
      else findPattern lower rest)"

text \<open>The outer loop over the team names of the block: the first name that matches wins.\<close>

fun findOurKey :: "string list \<Rightarrow> string option" where
  "findOurKey [] = None"
| "findOurKey (name # names) =
     (case findPattern (toLowerCase name) teamLookup of
        Some key \<Rightarrow> Some key
      | None \<Rightarrow> findOurKey names)"

text \<open>
  \<open>timestamp && timestamp < Date.now() / 1000 - 3600\<close>, with \<open>now\<close> the clock in
  milliseconds. A timestamp of 0 is falsy, like a missing one. The comparison is made
  in exact arithmetic: \<open>t < now / 1000 - 3600\<close> is \<open>1000 * t < now - 3600000\<close>.
\<close>

definition tooOld :: "int \<Rightarrow> nat option \<Rightarrow> bool" where
  "tooOld now ts =
     (case ts of
        None \<Rightarrow> False
      | Some t \<Rightarrow> t \<noteq> 0 \<and> 1000 * int t < now - 3600000)"

text \<open>The tournament name from the captured title, e.g. \<open>DreamLeague/28/Group_Stage_1#B\<close>.\<close>

definition truthyPart :: "string list \<Rightarrow> nat \<Rightarrow> string option" where
  "truthyPart parts i =
     (case nth_opt parts i of
        None \<Rightarrow> None
      | Some p \<Rightarrow> if p = [] then None else Some p)"

definition parseTournament :: "string option \<Rightarrow> string" where
  "parseTournament tournMatch =
     (case tournMatch of
        None \<Rightarrow> []
      | Some title \<Rightarrow>
          (let parts = split_at CHR ''/'' (map (\<lambda>c. if c = CHR ''_'' then CHR '' '' else c) title);
               name = trim (case parts of p # ps \<Rightarrow> p | [] \<Rightarrow> []);
               season = (case truthyPart parts 1 of Some p \<Rightarrow> trim p | None \<Rightarrow> []);
               stage = (case truthyPart parts 2 of
                          Some p \<Rightarrow> trim (case split_at CHR ''#'' p of q # qs \<Rightarrow> q | [] \<Rightarrow> [])
                        | None \<Rightarrow> []);
               tournament = (if season \<noteq> [] then name @ '' Season '' @ season else name)
           in if stage \<noteq> [] then tournament @ '' - '' @ stage else tournament))"

text \<open>\<open>ourNames.some(n => t.toLowerCase().includes(n))\<close>\<close>

definition isOurName :: "string list \<Rightarrow> string \<Rightarrow> bool" where
  "isOurName ourNames t = list_ex (\<lambda>n. str_includes (toLowerCase t) n) ourNames"

text \<open>
  One turn of the loop over the match blocks: the block is skipped (\<open>continue\<close>), an
  entry is pushed, or an exception leaves the loop. \<open>toISOString\<close> raises a
  \<open>RangeError\<close> for a date beyond 8.64e15 milliseconds; reading a property of a missing
  \<open>TEAMS\<close> entry would raise a \<open>TypeError\<close>.
\<close>

datatype 'a turn = Skip | Push 'a | Throw

text \<open>The rest of a turn, once the block has passed the three filters.\<close>

definition makeEntry :: "block \<Rightarrow> string list \<Rightarrow> (string \<times> string) list \<Rightarrow> string
    \<Rightarrow> upcoming_entry turn" where
  "makeEntry b teamNames teamLogos ourKey =
     (case map_of TEAMS ourKey of
        None \<Rightarrow> Throw
      | Some cfg \<Rightarrow>
          (let tournament = parseTournament (tournTitle b);
               bestOf = (case boDigit b of Some d \<Rightarrow> ''BO'' @ [d] | None \<Rightarrow> []);
               ourNames = [toLowerCase (cfg_name cfg), toLowerCase (cfg_tag cfg)];
               opponent =
                 (case find (\<lambda>t. \<not> isOurName ourNames t) teamNames of
                    Some t \<Rightarrow> t
                  | None \<Rightarrow> (case nth_opt teamNames 1 of
                               Some t \<Rightarrow> if t = [] then ''TBD'' else t
                             | None \<Rightarrow> ''TBD''));
               ourLogo = (case find (isOurName ourNames) teamNames of
                            Some ourTeamName \<Rightarrow> map_of teamLogos ourTeamName
                          | None \<Rightarrow> None);
               oppLogo = map_of teamLogos opponent
           in case data_timestamp b of
                None \<Rightarrow>
                  Push \<lparr>teamKey = ourKey, teamTag = cfg_tag cfg, opponent = opponent,
                        tournament = tournament, bestOf = bestOf, ourLogo = ourLogo,
                        oppLogo = oppLogo, timestamp = None, dateStr = None\<rparr>
              | Some t \<Rightarrow>
                  if t = 0 then
                    Push \<lparr>teamKey = ourKey, teamTag = cfg_tag cfg, opponent = opponent,
                          tournament = tournament, bestOf = bestOf, ourLogo = ourLogo,
                          oppLogo = oppLogo, timestamp = Some t, dateStr = None\<rparr>
                  else if 8640000000000000 < t * 1000 then Throw
                  else
                    Push \<lparr>teamKey = ourKey, teamTag = cfg_tag cfg, opponent = opponent,
                          tournament = tournament, bestOf = bestOf, ourLogo = ourLogo,
                          oppLogo = oppLogo, timestamp = Some t, dateStr = Some (t * 1000)\<rparr>))"

text \<open>
  The filters, in the order of the source: fewer than two team names; no tracked team
  among them; a start too far in the past.
\<close>

definition scrapeBlock :: "int \<Rightarrow> block \<Rightarrow> upcoming_entry turn" where
  "scrapeBlock now b =
     (let (teamNames, teamLogos) = scanTeams (teamImg b) [] [] in
      if length teamNames < 2 then Skip
      else (case findOurKey teamNames of
        None \<Rightarrow> Skip
      | Some ourKey \<Rightarrow>
          if tooOld now (data_timestamp b) then Skip
          else makeEntry b teamNames teamLogos ourKey))"

text \<open>
  The loop over the blocks. It returns the entries pushed so far and whether an
  exception ended it.
\<close>

fun scrapeLoop :: "int \<Rightarrow> block list \<Rightarrow> upcoming_entry list \<Rightarrow> upcoming_entry list \<times> bool" where
  "scrapeLoop now [] upcoming = (upcoming, False)"
| "scrapeLoop now (b # bs) upcoming =
     (case scrapeBlock now b of
        Skip \<Rightarrow> scrapeLoop now bs upcoming
      | Push e \<Rightarrow> scrapeLoop now bs (upcoming @ [e])
      | Throw \<Rightarrow> (upcoming, True))"

text \<open>
  The one request of the scrape has three outcomes: the GET is rejected, the body is not
  JSON, or there is a page, of which the model keeps the length of its HTML (the empty
  text when the JSON has no such member) and its match blocks. \<open>httpsGet\<close> follows
  redirects on its own; that is part of the one request.
\<close>

record wiki_page =
  html_length :: nat
  matchBlocks :: "block list"

datatype wiki_response = GetFailed error | ParseFailed | Page wiki_page

definition wikiUrl :: string where
  "wikiUrl = ''https://liquipedia.net/dota2/api.php?action=parse&page=Liquipedia:Matches&format=json&prop=text''"

text \<open>
  \<open>fetchUpcoming\<close>. Whatever is thrown inside its \<open>try\<close> is caught and the entries
  collected so far are returned; the final sort (stable, by \<open>timestamp || 0\<close>) runs
  only when the loop ended normally.
\<close>

definition tsKey :: "upcoming_entry \<Rightarrow> nat" where
  "tsKey e = (case timestamp e of Some t \<Rightarrow> t | None \<Rightarrow> 0)"

definition fetchUpcoming :: "wiki_response \<Rightarrow> int \<Rightarrow> upcoming_entry list \<times> event list" where
  "fetchUpcoming wiki now =
     ((case wiki of
         GetFailed err \<Rightarrow> []
       | ParseFailed \<Rightarrow> []
       | Page page \<Rightarrow>
           if html_length page < 1000 then []
           else (case scrapeLoop now (matchBlocks page) [] of
                   (upcoming, True) \<Rightarrow> upcoming
                 | (upcoming, False) \<Rightarrow> sort_key tsKey upcoming)),
      [HttpsGet wikiUrl])"

section \<open>Data of the stats API\<close>

text \<open>
  Responses are typed: each endpoint answers with \<open>null\<close> or with data of the shape the
  program reads. A response of another shape (a number where a list is expected, say) is
  outside the model. Parts of a response that the server only passes on are kept as
  opaque text (\<open>blob\<close>).
\<close>

type_synonym blob = string

record match =
  match_id :: nat
  radiant :: "bool js"
  radiant_win :: "bool js"
  start_time :: "int js"
  opposing_team_id :: "int js"
  opposing_team_name :: "string js"
  league_name :: "string js"
  leagueid :: "int js"

record team_player =
  account_id :: "nat js"
  games_played :: "nat js"
  wins :: "nat js"

record pro_player =
  account_id :: "nat js"
  name :: "string js"

record match_player =
  account_id :: "nat js"
  personaname :: "string js"
  player_slot :: nat
  hero_id :: "nat js"

record match_detail =
  players :: "match_player list js"

record hero =
  id' :: nat
  hero_data :: blob

record live_game =
  radiant_team_id :: "nat js"
  dire_team_id :: "nat js"
  game_data :: blob

record roster_entry =
  account_id :: "nat js"
  name :: string
  personaname :: string
  games_played :: nat
  wins :: nat
  hero_id :: "nat js"

record team_result =
  key :: string
  info :: blob
  matches :: "match list"
  players :: "team_player list"
  heroes :: "blob list"

record team_entry = team_result +
  roster :: "roster_entry list"

record snapshot =
  teams :: "(string \<times> team_entry) list"
  heroMap :: "nat \<rightharpoonup> hero"
  liveMatches :: "live_game list"
  upcoming :: "upcoming_entry list"
  teamConfig :: "(string \<times> team_cfg) list"
  lastUpdated :: int
  liveUpdated :: "int option"

text \<open>
  \<open>lastUpdated\<close> and \<open>liveUpdated\<close> stand for the ISO text of the clock at that moment;
  the model keeps the clock's milliseconds. A snapshot has no \<open>liveUpdated\<close> until a
  live refresh writes one.
\<close>

text \<open>
  Everything one full refresh cycle takes from outside: the attempts of each of its
  \<open>fetchWithRetry\<close> calls (the per-team calls by team id, the match-detail call of the
  roster of a team by team key and match id), the answer to the wiki request, and the
  clock at the scrape and at the moment the snapshot is assembled.
\<close>

record world =
  w_teamInfo :: "nat \<Rightarrow> blob attempts"
  w_teamMatches :: "nat \<Rightarrow> match list attempts"
  w_teamPlayers :: "nat \<Rightarrow> team_player list attempts"
  w_teamHeroes :: "nat \<Rightarrow> blob list attempts"
  w_heroStats :: "hero list attempts"
  w_live :: "live_game list attempts"
  w_proPlayers :: "pro_player list attempts"
  w_matchDetail :: "string \<Rightarrow> nat \<Rightarrow> match_detail attempts"
  w_wiki :: wiki_response
  w_scrapeNow :: int
  w_doneNow :: int

section \<open>Rosters\<close>

text \<open>\<open>x || 0\<close> for a count.\<close>

fun natOr0 :: "nat js \<Rightarrow> nat" where
  "natOr0 (Val n) = n"
| "natOr0 Undefined = 0"
| "natOr0 Null = 0"

text \<open>\<open>String(x)\<close> of an account id.\<close>

fun idString :: "nat js \<Rightarrow> string" where
  "idString (Val n) = show_nat n"
| "idString Null = ''null''"
| "idString Undefined = ''undefined''"

text \<open>
  \<open>proNameMap\<close>: only players with a truthy id and a truthy name are entered, so its
  keys are the decimal texts of non-zero numbers and it is indexed by number here.
\<close>

fun addProName :: "pro_player \<Rightarrow> (nat \<rightharpoonup> string) \<Rightarrow> (nat \<rightharpoonup> string)" where
  "addProName p m =
     (case (pro_player.account_id p, pro_player.name p) of
        (Val a, Val n) \<Rightarrow> if a \<noteq> 0 \<and> n \<noteq> [] then m(a \<mapsto> n) else m
      | _ \<Rightarrow> m)"

definition proNameMapOf :: "pro_player list js \<Rightarrow> (nat \<rightharpoonup> string)" where
  "proNameMapOf proPlayers = fold addProName (orElse proPlayers []) Map.empty"

fun proNameOf :: "(nat \<rightharpoonup> string) \<Rightarrow> nat js \<Rightarrow> string option" where
  "proNameOf m (Val a) = m a"
| "proNameOf m Undefined = None"
| "proNameOf m Null = None"

text \<open>
  \<open>statsMap\<close> is keyed by the text of \<open>account_id\<close>, whatever it is; the texts of two
  ids are equal exactly when the ids are.
\<close>

definition statsMapOf :: "team_player list \<Rightarrow> (nat js \<rightharpoonup> team_player)" where
  "statsMapOf ps = fold (\<lambda>p m. m(team_player.account_id p \<mapsto> p)) ps Map.empty"

definition rosterEntry :: "(nat \<rightharpoonup> string) \<Rightarrow> (nat js \<rightharpoonup> team_player) \<Rightarrow> match_player
    \<Rightarrow> roster_entry" where
  "rosterEntry proNameMap statsMap p =
     \<lparr>roster_entry.account_id = match_player.account_id p,
      roster_entry.name =
        (case proNameOf proNameMap (match_player.account_id p) of
           Some n \<Rightarrow> n
         | None \<Rightarrow> strOr (match_player.personaname p) (idString (match_player.account_id p))),
      roster_entry.personaname = strOr (match_player.personaname p) [],
      roster_entry.games_played =
        (case statsMap (match_player.account_id p) of
           Some s \<Rightarrow> natOr0 (team_player.games_played s)
         | None \<Rightarrow> 0),
      roster_entry.wins =
        (case statsMap (match_player.account_id p) of
           Some s \<Rightarrow> natOr0 (team_player.wins s)
         | None \<Rightarrow> 0),
      roster_entry.hero_id = match_player.hero_id p\<rparr>"

text \<open>The body of the loop of \<open>buildCurrentRosters\<close> for one team result.\<close>

definition teamRoster :: "world \<Rightarrow> (nat \<rightharpoonup> string) \<Rightarrow> team_result
    \<Rightarrow> roster_entry list \<times> event list" where
  "teamRoster w proNameMap t =
     (case matches t of
        [] \<Rightarrow> ([], [])
      | recentMatch # rest \<Rightarrow>
          (case fetchWithRetry (''/matches/'' @ show_nat (match_id recentMatch))
                  (w_matchDetail w (key t) (match_id recentMatch)) of
             (Inl err, evs) \<Rightarrow> ([], evs)
           | (Inr matchDetail, evs) \<Rightarrow>
               (case matchDetail of
                  Val d \<Rightarrow>
                    (case match_detail.players d of
                       Val ps \<Rightarrow>
                         (let isRadiant = (radiant recentMatch = Val True);
                              teamPlayers =
                                filter (\<lambda>p. if isRadiant then player_slot p < 128
                                             else player_slot p \<ge> 128) ps
                          in (map (rosterEntry proNameMap (statsMapOf (team_result.players t)))
                                teamPlayers, evs))
                     | _ \<Rightarrow> ([], evs))
                | _ \<Rightarrow> ([], evs))))"

text \<open>
  \<open>buildCurrentRosters\<close>: the teams are handled one after the other; \<open>rosters\<close> is the
  object from team key to roster.
\<close>

fun rosterLoop :: "world \<Rightarrow> (nat \<rightharpoonup> string) \<Rightarrow> team_result list
    \<Rightarrow> (string \<times> roster_entry list) list \<Rightarrow> (string \<times> roster_entry list) list \<times> event list" where
  "rosterLoop w proNameMap [] rosters = (rosters, [])"
| "rosterLoop w proNameMap (t # ts) rosters =
     (let (r, evs) = teamRoster w proNameMap t;
          (rosters', evs') = rosterLoop w proNameMap ts (AList.update (key t) r rosters)
      in (rosters', evs @ evs'))"

definition buildCurrentRosters :: "world \<Rightarrow> team_result list \<Rightarrow> pro_player list js
    \<Rightarrow> (string \<times> roster_entry list) list \<times> event list" where
  "buildCurrentRosters w teamResults proPlayers =
     rosterLoop w (proNameMapOf proPlayers) teamResults []"

section \<open>The server's variables\<close>

record player_hero =
  hero_id :: "nat js"
  games :: "nat js"
  win :: "nat js"

record hero_stat =
  hero_id :: "nat js"
  games :: nat
  win :: nat

record hero_cache_entry =
  data :: "hero_stat list"
  timestamp :: int

record img_entry =
  data :: string
  contentType :: string
  timestamp :: int

text \<open>
  The module-level variables: \<open>cachedData\<close> (\<open>None\<close> is the initial \<open>null\<close>),
  \<open>isRefreshing\<close>, and the two lazily filled caches.
\<close>

record server =
  cachedData :: "snapshot option"
  isRefreshing :: bool
  playerHeroCache :: "nat \<rightharpoonup> hero_cache_entry"
  imgCache :: "string \<rightharpoonup> img_entry"

definition initial :: server where
  "initial = \<lparr>cachedData = None, isRefreshing = False,
              playerHeroCache = Map.empty, imgCache = Map.empty\<rparr>"

section \<open>The full refresh\<close>

text \<open>\<open>p.catch(() => [])\<close>\<close>

fun catchEmpty :: "error + 'a list js \<Rightarrow> 'a list js" where
  "catchEmpty (Inl err) = Val []"
| "catchEmpty (Inr v) = v"

text \<open>
  \<open>Promise.all\<close> over a list of settled promises: the results in order, or a rejection.
  Which rejection is reported when several promises fail depends on timing; the model
  reports the first in the order of the arguments. The program only logs its message.
\<close>

fun promiseAll :: "(error + 'a) list \<Rightarrow> error + 'a list" where
  "promiseAll [] = Inr []"
| "promiseAll (Inl err # ps) = Inl err"
| "promiseAll (Inr v # ps) = (case promiseAll ps of Inl err \<Rightarrow> Inl err | Inr vs \<Rightarrow> Inr (v # vs))"

text \<open>
  The promise made for one team: four requests in parallel; when all four succeed, the
  team result with its defaults (\<open>info || {}\<close>, \<open>(matches || []).slice(0, 50)\<close>,
  \<open>players || []\<close>, \<open>heroes || []\<close>). The events of parallel requests are listed
  call after call; their interleaving in time is not modelled.
\<close>

definition teamPromise :: "world \<Rightarrow> string \<times> team_cfg \<Rightarrow> (error + team_result) \<times> event list" where
  "teamPromise w kc =
     (case kc of (k, cfg) \<Rightarrow>
      (let tid = cfg_id cfg;
           (info, e1) = fetchWithRetry (''/teams/'' @ show_nat tid) (w_teamInfo w tid);
           (matches, e2) = fetchWithRetry (''/teams/'' @ show_nat tid @ ''/matches'') (w_teamMatches w tid);
           (players, e3) = fetchWithRetry (''/teams/'' @ show_nat tid @ ''/players'') (w_teamPlayers w tid);
           (heroes, e4) = fetchWithRetry (''/teams/'' @ show_nat tid @ ''/heroes'') (w_teamHeroes w tid)
       in ((case info of Inl err \<Rightarrow> Inl err | Inr i \<Rightarrow>
            (case matches of Inl err \<Rightarrow> Inl err | Inr m \<Rightarrow>
             (case players of Inl err \<Rightarrow> Inl err | Inr p \<Rightarrow>
              (case heroes of Inl err \<Rightarrow> Inl err | Inr h \<Rightarrow>
                 Inr \<lparr>key = k, info = orElse i ''{}'', matches = take 50 (orElse m []),
                      players = orElse p [], heroes = orElse h []\<rparr>)))),
           e1 @ e2 @ e3 @ e4)))"

text \<open>
  The first \<open>await\<close> of the cycle: hero stats, live games and pro players, and one
  promise per team, all in parallel. Only the live and pro-player requests carry a
  \<open>.catch(() => [])\<close>.
\<close>

definition fanout :: "world
    \<Rightarrow> (error + hero list js \<times> live_game list js \<times> pro_player list js \<times> team_result list) \<times> event list" where
  "fanout w =
     (let (heroStats, e1) = fetchWithRetry ''/heroStats'' (w_heroStats w);
          (live, e2) = fetchWithRetry ''/live'' (w_live w);
          (proPlayers, e3) = fetchWithRetry ''/proPlayers'' (w_proPlayers w);
          teamPromises = map (teamPromise w) TEAMS
      in ((case heroStats of
             Inl err \<Rightarrow> Inl err
           | Inr hs \<Rightarrow>
               (case promiseAll (map fst teamPromises) of
                  Inl err \<Rightarrow> Inl err
                | Inr teamResults \<Rightarrow> Inr (hs, catchEmpty live, catchEmpty proPlayers, teamResults))),
          e1 @ e2 @ e3 @ concat (map snd teamPromises)))"

text \<open>\<open>ourIds.has(x)\<close>\<close>

fun isOurId :: "nat js \<Rightarrow> bool" where
  "isOurId (Val n) = (n \<in> set ourIds)"
| "isOurId Undefined = False"
| "isOurId Null = False"

definition filterLive :: "live_game list js \<Rightarrow> live_game list" where
  "filterLive live =
     filter (\<lambda>m. isOurId (radiant_team_id m) \<or> isOurId (dire_team_id m)) (orElse live [])"

definition withRoster :: "(string \<times> roster_entry list) list \<Rightarrow> team_result \<Rightarrow> team_entry" where
  "withRoster rosters t =
     \<lparr>key = key t, info = info t, matches = matches t, players = team_result.players t,
      heroes = heroes t,
      roster = (case map_of rosters (key t) of Some r \<Rightarrow> r | None \<Rightarrow> [])\<rparr>"

text \<open>
  The \<open>try\<close> block of \<open>refreshAllData\<close>: it ends in an exception or in the snapshot to
  be stored. After the fan-out nothing can throw: \<open>buildCurrentRosters\<close> catches the
  failure of its requests and \<open>fetchUpcoming\<close> catches everything.
\<close>

definition refreshBody :: "world \<Rightarrow> (error + snapshot) \<times> event list" where
  "refreshBody w =
     (case fanout w of
        (Inl err, evs) \<Rightarrow> (Inl err, evs)
      | (Inr (heroStats, live, proPlayers, teamResults), evs) \<Rightarrow>
          (let heroMap = fold (\<lambda>h m. m(id' h \<mapsto> h)) (orElse heroStats []) Map.empty;
               (rosters, evs2) = buildCurrentRosters w teamResults proPlayers;
               teams = fold (\<lambda>t al. AList.update (key t) (withRoster rosters t) al) teamResults [];
               liveMatches = filterLive live;
               (upcoming, evs3) = fetchUpcoming (w_wiki w) (w_scrapeNow w)
           in (Inr \<lparr>teams = teams, heroMap = heroMap, liveMatches = liveMatches,
                    upcoming = upcoming, teamConfig = TEAMS, lastUpdated = w_doneNow w,
                    liveUpdated = None\<rparr>,
               evs @ evs2 @ evs3)))"

text \<open>
  \<open>refreshAllData\<close> is an asynchronous function. Its first part runs at the call, up to
  the first \<open>await\<close>: it either returns at once because a refresh is running, or raises
  the flag. The second part runs when the awaited work has settled: it stores the
  snapshot or logs the failure, and lowers the flag in \<open>finally\<close>. Between the two parts
  the function touches none of the server's variables.
\<close>

definition refreshAllData_enter :: "server \<Rightarrow> server \<times> bool" where
  "refreshAllData_enter s =
     (if isRefreshing s then (s, False) else (s\<lparr>isRefreshing := True\<rparr>, True))"

definition refreshAllData_settle :: "world \<Rightarrow> server \<Rightarrow> server \<times> event list" where
  "refreshAllData_settle w s =
     (case refreshBody w of
        (Inr snap, evs) \<Rightarrow> (s\<lparr>cachedData := Some snap, isRefreshing := False\<rparr>, evs)
      | (Inl err, evs) \<Rightarrow> (s\<lparr>isRefreshing := False\<rparr>, evs))"

text \<open>A call that runs to its end with nothing else in between.\<close>

definition refreshAllData :: "world \<Rightarrow> server \<Rightarrow> server \<times> event list" where
  "refreshAllData w s =
     (case refreshAllData_enter s of
        (s', False) \<Rightarrow> (s', [])
      | (s', True) \<Rightarrow> refreshAllData_settle w s')"

section \<open>The live-only refresh\<close>

text \<open>
  \<open>refreshLiveOnly\<close> awaits one request and then, in one go, writes the two fields of
  the cached snapshot, if there is one. \<open>s\<close> is the state at that moment and \<open>now\<close> the
  clock.
\<close>

definition refreshLiveOnly :: "live_game list attempts \<Rightarrow> int \<Rightarrow> server \<Rightarrow> server \<times> event list" where
  "refreshLiveOnly att now s =
     (let (r, evs) = fetchWithRetry ''/live'' att;
          liveMatches = filterLive (catchEmpty r)
      in ((case cachedData s of
             Some c \<Rightarrow> s\<lparr>cachedData := Some (c\<lparr>liveMatches := liveMatches, liveUpdated := Some now\<rparr>)\<rparr>
           | None \<Rightarrow> s),
          evs))"

section \<open>Player heroes\<close>

text \<open>\<open>h.games > 0\<close>: a missing count is not greater than 0.\<close>

definition playedSome :: "player_hero \<Rightarrow> bool" where
  "playedSome h = (natOr0 (player_hero.games h) > 0)"

definition toHeroStat :: "player_hero \<Rightarrow> hero_stat" where
  "toHeroStat h =
     \<lparr>hero_stat.hero_id = player_hero.hero_id h,
      hero_stat.games = natOr0 (player_hero.games h),
      hero_stat.win = natOr0 (player_hero.win h)\<rparr>"

text \<open>The test that opens \<open>getPlayerHeroes\<close>: a cache entry younger than 30 minutes.\<close>

definition freshHeroes :: "int \<Rightarrow> server \<Rightarrow> nat \<Rightarrow> hero_stat list option" where
  "freshHeroes now s accountId =
     (case playerHeroCache s accountId of
        None \<Rightarrow> None
      | Some cached \<Rightarrow>
          if now - hero_cache_entry.timestamp cached < 30 * 60 * 1000
          then Some (hero_cache_entry.data cached) else None)"

text \<open>
  \<open>getPlayerHeroes\<close>, with the clock at the call (\<open>now\<close>) and at the moment the
  result is stored (\<open>later\<close>). A failed request propagates and stores nothing. The
  call is taken from start to end with no other handler in between.
\<close>

definition getPlayerHeroes :: "player_hero list attempts \<Rightarrow> int \<Rightarrow> int \<Rightarrow> server \<Rightarrow> nat
    \<Rightarrow> (error + hero_stat list) \<times> server \<times> event list" where
  "getPlayerHeroes att now later s accountId =
     (case freshHeroes now s accountId of
        Some cachedHeroes \<Rightarrow> (Inr cachedHeroes, s, [])
      | None \<Rightarrow>
          (case fetchWithRetry (''/players/'' @ show_nat accountId @ ''/heroes?game_mode=2'') att of
             (Inl err, evs) \<Rightarrow> (Inl err, s, evs)
           | (Inr fetched, evs) \<Rightarrow>
               (let heroes = map toHeroStat (take 10 (filter playedSome (orElse fetched [])))
                in (Inr heroes,
                    s\<lparr>playerHeroCache := (playerHeroCache s)
                         (accountId \<mapsto> \<lparr>hero_cache_entry.data = heroes,
                                         hero_cache_entry.timestamp = later\<rparr>)\<rparr>,
                    evs))))"

section \<open>The image proxy\<close>

text \<open>
  The answer to one image request: a redirect with a location, a rejection (a status
  other than 200, a network or a stream error), or the bytes with the value of the
  \<open>content-type\<close> header.
\<close>

datatype img_response = Redirected string | Rejected error | Ok200 string "string option"

text \<open>
  \<open>proxyImage\<close> follows redirects by calling itself, which need not end. The model
  counts the calls down from \<open>fuel\<close>; \<open>None\<close> means the promise has not settled within
  it. The \<open>k\<close>-th request made on behalf of one call is answered by \<open>net k\<close>.
\<close>

fun proxyImage :: "nat \<Rightarrow> (nat \<Rightarrow> img_response) \<Rightarrow> nat \<Rightarrow> int \<Rightarrow> (string \<rightharpoonup> img_entry) \<Rightarrow> string
    \<Rightarrow> ((error + img_entry) \<times> (string \<rightharpoonup> img_entry) \<times> event list) option" where
  "proxyImage 0 net k now cache imageUrl = None"
| "proxyImage (Suc fuel) net k now cache imageUrl =
     (if (case cache imageUrl of
            Some cached \<Rightarrow> now - img_entry.timestamp cached < 24 * 60 * 60 * 1000
          | None \<Rightarrow> False)
      then (case cache imageUrl of
              Some cached \<Rightarrow> Some (Inr cached, cache, [])
            | None \<Rightarrow> None)
      else (case net k of
              Redirected location \<Rightarrow>
                (case proxyImage fuel net (Suc k) now cache location of
                   None \<Rightarrow> None
                 | Some (r, cache', evs) \<Rightarrow> Some (r, cache', HttpsGet imageUrl # evs))
            | Rejected err \<Rightarrow> Some (Inl err, cache, [HttpsGet imageUrl])
            | Ok200 bytes ctype \<Rightarrow>
                (let result = \<lparr>img_entry.data = bytes,
                               contentType = (case ctype of
                                                Some c \<Rightarrow> if c = [] then ''image/png'' else c
                                              | None \<Rightarrow> ''image/png''),
                               img_entry.timestamp = now\<rparr>
                 in Some (Inr result, cache(imageUrl \<mapsto> result), [HttpsGet imageUrl]))))"

section \<open>The HTTP server\<close>

text \<open>\<open>s.split(sep)\<close> at a separator of one or more characters.\<close>

fun split_str :: "string \<Rightarrow> string \<Rightarrow> string list" where
  "split_str sep [] = [[]]"
| "split_str sep (c # cs) =
     (if sep \<noteq> [] \<and> starts (c # cs) sep then [] # split_str sep (drop (length sep - 1) cs)
      else (case split_str sep cs of
              p # ps \<Rightarrow> (c # p) # ps
            | [] \<Rightarrow> [[c]]))"

definition is_digit :: "char \<Rightarrow> bool" where
  "is_digit c = (c \<in> set ''0123456789'')"

definition digit_val :: "char \<Rightarrow> nat" where
  "digit_val c = (case map_of (zip ''0123456789'' [0, 1, 2, 3, 4, 5, 6, 7, 8, 9]) c of
                    Some d \<Rightarrow> d
                  | None \<Rightarrow> 0)"

text \<open>
  \<open>parseInt\<close> of a run of digits: its exact value, which is the code's result for
  values below \<open>2^53\<close>. For a longer run the code gets the nearest double (and prints
  it as such); the model does not follow it there.
\<close>

definition parseInt :: "string \<Rightarrow> nat" where
  "parseInt ds = fold (\<lambda>c n. 10 * n + digit_val c) ds 0"

text \<open>\<open>url.match(/^\/api\/player\/(\d+)\/heroes$/)\<close>: the captured digits.\<close>

definition playerMatch :: "string \<Rightarrow> string option" where
  "playerMatch url =
     (if starts url ''/api/player/'' then
        (let rest = drop (length ''/api/player/'') url;
             ds = takeWhile is_digit rest
         in if ds \<noteq> [] \<and> dropWhile is_digit rest = ''/heroes'' then Some ds else None)
      else None)"

text \<open>
  A response is its status and its body; headers are not modelled, and a JSON body is
  kept as the value that is serialised.
\<close>

datatype body =
    JsonSnapshot snapshot
  | JsonError string
  | JsonHeroes "hero_stat list"
  | JsonStatus string
  | Text string
  | Bytes string

record response =
  status :: nat
  body :: body

text \<open>
  How the handler of one request ends: with a response; with an exception that leaves
  the asynchronous handler before any response is written, so that nothing is answered
  and the unhandled rejection ends the process (Node 15 and later); or waiting for an
  image request that does not settle. For a handler left waiting, the requests it has
  made so far are not listed.
\<close>

datatype reply = Responded response | Crashed | Waiting

text \<open>
  What one request takes from outside: \<open>decodeURIComponent\<close> (\<open>None\<close> where it raises
  a \<open>URIError\<close>), the attempts of the player-heroes request and the clock at its two
  readings, the answers to image requests with the fuel for following redirects, and
  \<open>fs.readFile\<close> (\<open>None\<close> for an error).
\<close>

record request_env =
  r_decodeURIComponent :: "string \<Rightarrow> string option"
  r_player :: "player_hero list attempts"
  r_now :: int
  r_later :: int
  r_img :: "nat \<Rightarrow> img_response"
  r_fuel :: nat
  r_readFile :: "string \<Rightarrow> string option"

text \<open>
  The request handler, from the request's URL. Its result: how it ends, the server's
  variables afterwards, the requests it made, and whether it set a refresh cycle going
  (\<open>/api/refresh\<close> calls \<open>refreshAllData\<close> without awaiting it). The handler is taken
  from start to end with no other handler in between. The test of the image route calls
  \<open>decodeURIComponent\<close> outside any \<open>try\<close> (the \<open>try\<close> of that route begins after the
  test), so its error leaves the handler.
\<close>

text \<open>\<open>req.url.split('?')[0]\<close> and \<open>req.url.split('?url=')[1]\<close>\<close>

definition pathOf :: "string \<Rightarrow> string" where
  "pathOf req_url = (case split_at CHR ''?'' req_url of p # ps \<Rightarrow> p | [] \<Rightarrow> [])"

definition imgUrlOf :: "string \<Rightarrow> string option" where
  "imgUrlOf req_url = nth_opt (split_str ''?url='' req_url) 1"

definition handle :: "request_env \<Rightarrow> server \<Rightarrow> string \<Rightarrow> reply \<times> server \<times> event list \<times> bool" where
  "handle env s req_url =
     (let url = pathOf req_url in
      if url = ''/api/data'' then
        (case cachedData s of
           Some snap \<Rightarrow> (Responded \<lparr>status = 200, body = JsonSnapshot snap\<rparr>, s, [], False)
         | None \<Rightarrow> (Responded \<lparr>status = 503, body = JsonError ''Data is loading...''\<rparr>, s, [], False))
      else (case playerMatch url of
        Some ds \<Rightarrow>
          (case getPlayerHeroes (r_player env) (r_now env) (r_later env) s (parseInt ds) of
             (Inr hs, s', evs) \<Rightarrow>
               (Responded \<lparr>status = 200, body = JsonHeroes hs\<rparr>, s', evs, False)
           | (Inl (Error msg), s', evs) \<Rightarrow>
               (Responded \<lparr>status = 500, body = JsonError msg\<rparr>, s', evs, False))
      | None \<Rightarrow>
          if url = ''/api/img'' then
            (case imgUrlOf req_url of
               None \<Rightarrow> (Responded \<lparr>status = 400, body = Text ''Bad request''\<rparr>, s, [], False)
             | Some imgUrl \<Rightarrow>
                 if imgUrl = [] then
                   (Responded \<lparr>status = 400, body = Text ''Bad request''\<rparr>, s, [], False)
                 else (case r_decodeURIComponent env imgUrl of
                   None \<Rightarrow> (Crashed, s, [], False)
                 | Some decoded \<Rightarrow>
                     if \<not> starts decoded ''https://liquipedia.net/'' then
                       (Responded \<lparr>status = 400, body = Text ''Bad request''\<rparr>, s, [], False)
                     else (case proxyImage (r_fuel env) (r_img env) 0 (r_now env) (imgCache s) decoded of
                       None \<Rightarrow> (Waiting, s, [], False)
                     | Some (Inr img, cache', evs) \<Rightarrow>
                         (Responded \<lparr>status = 200, body = Bytes (img_entry.data img)\<rparr>,
                          s\<lparr>imgCache := cache'\<rparr>, evs, False)
                     | Some (Inl err, cache', evs) \<Rightarrow>
                         (Responded \<lparr>status = 502, body = Text ''Image fetch failed''\<rparr>,
                          s\<lparr>imgCache := cache'\<rparr>, evs, False))))
          else if url = ''/api/refresh'' then
            (case refreshAllData_enter s of
               (s', started) \<Rightarrow>
                 (Responded \<lparr>status = 200, body = JsonStatus ''refresh started''\<rparr>, s', [], started))
          else
            (case r_readFile env (if url = ''/'' then ''/index.html'' else url) of
               None \<Rightarrow> (Responded \<lparr>status = 404, body = Text ''Not found''\<rparr>, s, [], False)
             | Some content \<Rightarrow> (Responded \<lparr>status = 200, body = Bytes content\<rparr>, s, [], False))))"

section \<open>The server as a transition system\<close>

text \<open>
  The server runs on one thread; handlers and timers take turns. A configuration is the
  server's variables together with the number of refresh cycles that have passed their
  first part and not yet run their second. A step is: a call of \<open>refreshAllData\<close> by a
  timer or at start-up; the second part of a running cycle; a live-only refresh writing
  its result; or a request. A request whose handler ends the process has no successor.
\<close>

record system =
  vars :: server
  running :: nat

definition start :: system where
  "start = \<lparr>vars = initial, running = 0\<rparr>"

inductive step :: "system \<Rightarrow> system \<Rightarrow> bool" where
  call: "refreshAllData_enter (vars c) = (s', started)
         \<Longrightarrow> step c \<lparr>vars = s', running = (if started then Suc (running c) else running c)\<rparr>"
| settle: "0 < running c
         \<Longrightarrow> step c \<lparr>vars = fst (refreshAllData_settle w (vars c)), running = running c - 1\<rparr>"
| live: "step c \<lparr>vars = fst (refreshLiveOnly att now (vars c)), running = running c\<rparr>"
| request: "handle env (vars c) req_url = (r, s', evs, started) \<Longrightarrow> r \<noteq> Crashed
         \<Longrightarrow> step c \<lparr>vars = s', running = (if started then Suc (running c) else running c)\<rparr>"

definition reachable :: "system \<Rightarrow> bool" where
  "reachable c = step\<^sup>*\<^sup>* start c"

section \<open>The front end: grouping matches into series\<close>

text \<open>
  \<open>(m.radiant === true && m.radiant_win === true) ||
   (m.radiant === false && m.radiant_win === false)\<close>
\<close>

definition didWin :: "match \<Rightarrow> bool" where
  "didWin m = ((radiant m = Val True \<and> radiant_win m = Val True)
             \<or> (radiant m = Val False \<and> radiant_win m = Val False))"

text \<open>\<open>m.start_time || 0\<close> and \<open>m.league_name || ''\<close>\<close>

definition startOf :: "match \<Rightarrow> int" where
  "startOf m = numOr0 (start_time m)"

definition leagueOf :: "match \<Rightarrow> string" where
  "leagueOf m = strOr (league_name m) []"

text \<open>
  A series while the first loop builds it, and the finished series with the two members
  the second loop adds.
\<close>

record open_series =
  league :: string
  leagueid :: "int js"
  opponent :: string
  opponentId :: "int js"
  wins :: nat
  losses :: nat
  games :: "match list"
  latestTime :: int

record series = open_series +
  boType :: string
  seriesWon :: bool

definition newSeries :: "match \<Rightarrow> open_series" where
  "newSeries m =
     (let won = didWin m in
      \<lparr>league = leagueOf m, leagueid = match.leagueid m,
       opponent = strOr (opposing_team_name m) ''Unknown'',
       opponentId = opposing_team_id m,
       wins = (if won then 1 else 0), losses = (if won then 0 else 1),
       games = [m], latestTime = startOf m\<rparr>)"

text \<open>
  The test under which a match joins the current series: same opponent id (\<open>===\<close>),
  same league, and a start less than six hours from that of the last game pushed.
\<close>

definition joins :: "open_series \<Rightarrow> match \<Rightarrow> bool" where
  "joins cur m =
     (opponentId cur = opposing_team_id m \<and> open_series.league cur = leagueOf m
      \<and> open_series.games cur \<noteq> []
      \<and> \<bar>startOf m - startOf (last (open_series.games cur))\<bar> < 6 * 3600)"

definition pushGame :: "open_series \<Rightarrow> match \<Rightarrow> open_series" where
  "pushGame cur m =
     (if didWin m
      then cur\<lparr>open_series.games := open_series.games cur @ [m], open_series.wins := Suc (open_series.wins cur)\<rparr>
      else cur\<lparr>open_series.games := open_series.games cur @ [m], losses := Suc (losses cur)\<rparr>)"

text \<open>
  The first loop. \<open>cur\<close> is always the series pushed last, so it is read as the last
  element of \<open>series\<close>; it is \<open>null\<close> exactly while \<open>series\<close> is empty.
\<close>

fun groupLoop :: "match list \<Rightarrow> open_series list \<Rightarrow> open_series list" where
  "groupLoop [] series = series"
| "groupLoop (m # ms) series =
     (if series \<noteq> [] \<and> joins (last series) m
      then groupLoop ms (butlast series @ [pushGame (last series) m])
      else groupLoop ms (series @ [newSeries m]))"

text \<open>
  The label of the second loop, from the number of games (\<open>total\<close> in the source), the
  wins and the losses.
\<close>

definition boLabel :: "nat \<Rightarrow> nat \<Rightarrow> nat \<Rightarrow> string" where
  "boLabel n w l =
     (if n = 1 then ''BO1''
      else if max w l = 2 \<and> n \<le> 3 then ''BO3''
      else if max w l = 3 \<and> n \<le> 5 then ''BO5''
      else show_nat n @ ''G'')"

definition finishSeries :: "open_series \<Rightarrow> series" where
  "finishSeries s =
     \<lparr>league = open_series.league s, leagueid = open_series.leagueid s,
      opponent = open_series.opponent s, opponentId = opponentId s,
      wins = open_series.wins s, losses = losses s,
      games = sort_key startOf (open_series.games s), latestTime = latestTime s,
      boType = boLabel (length (open_series.games s)) (open_series.wins s) (losses s),
      seriesWon = (open_series.wins s > losses s)\<rparr>"

text \<open>
  \<open>groupMatchesIntoSeries\<close>: sort by start time, latest first (the sort is stable),
  group, then label each series and put its games in ascending order.
\<close>

definition sortedDesc :: "match list \<Rightarrow> match list" where
  "sortedDesc ms = sort_key (\<lambda>m. - startOf m) ms"

definition groupMatchesIntoSeries :: "match list \<Rightarrow> series list" where
  "groupMatchesIntoSeries ms =
     (if ms = [] then [] else map finishSeries (groupLoop (sortedDesc ms) []))"

section \<open>The grouping as the specification words it\<close>

text \<open>
  Two neighbouring matches of the sorted list belong together when they have the same
  opposing team id and the same league name and start less than six hours apart.
\<close>

definition sameSeries :: "match \<Rightarrow> match \<Rightarrow> bool" where
  "sameSeries a b =
     (opposing_team_id a = opposing_team_id b \<and> leagueOf a = leagueOf b
      \<and> \<bar>startOf b - startOf a\<bar> < 6 * 3600)"

text \<open>
  \<open>runs R xs\<close> cuts \<open>xs\<close> into its maximal stretches of neighbours related by \<open>R\<close>:
  a cut falls between two neighbours exactly when \<open>R\<close> does not hold of them.
\<close>

fun runs :: "('a \<Rightarrow> 'a \<Rightarrow> bool) \<Rightarrow> 'a list \<Rightarrow> 'a list list" where
  "runs R [] = []"
| "runs R [x] = [[x]]"
| "runs R (x # y # zs) =
     (if R x y
      then (case runs R (y # zs) of r # rs \<Rightarrow> (x # r) # rs | [] \<Rightarrow> [[x]])
      else [x] # runs R (y # zs))"

section \<open>The built-in decodeURIComponent\<close>

text \<open>
  The handler is given \<open>decodeURIComponent\<close> from outside. For the examples it is
  modelled after the \<open>Decode\<close> operation of the ECMAScript specification; \<open>None\<close>
  is the \<open>URIError\<close>.
\<close>

text \<open>A hexadecimal digit as its four bits, the lowest first.\<close>

definition hexBits :: "char \<Rightarrow> (bool \<times> bool \<times> bool \<times> bool) option" where
  "hexBits h =
     map_of
       [(CHR ''0'', (False, False, False, False)), (CHR ''1'', (True, False, False, False)),
        (CHR ''2'', (False, True, False, False)), (CHR ''3'', (True, True, False, False)),
        (CHR ''4'', (False, False, True, False)), (CHR ''5'', (True, False, True, False)),
        (CHR ''6'', (False, True, True, False)), (CHR ''7'', (True, True, True, False)),
        (CHR ''8'', (False, False, False, True)), (CHR ''9'', (True, False, False, True)),
        (CHR ''a'', (False, True, False, True)), (CHR ''b'', (True, True, False, True)),
        (CHR ''c'', (False, False, True, True)), (CHR ''d'', (True, False, True, True)),
        (CHR ''e'', (False, True, True, True)), (CHR ''f'', (True, True, True, True)),
        (CHR ''A'', (False, True, False, True)), (CHR ''B'', (True, True, False, True)),
        (CHR ''C'', (False, False, True, True)), (CHR ''D'', (True, False, True, True)),
        (CHR ''E'', (False, True, True, True)), (CHR ''F'', (True, True, True, True))] h"

text \<open>The byte written by the two hexadecimal digits at the head of a text.\<close>

definition parseHexOctet :: "string \<Rightarrow> char option" where
  "parseHexOctet s =
     (case s of
        h1 # h2 # rest \<Rightarrow>
          (case (hexBits h1, hexBits h2) of
             (Some (a0, a1, a2, a3), Some (b0, b1, b2, b3)) \<Rightarrow> Some (Char b0 b1 b2 b3 a0 a1 a2 a3)
           | _ \<Rightarrow> None)
      | _ \<Rightarrow> None)"

text \<open>The number of leading 1 bits of a byte (5 stands for five or more).\<close>

definition leadingOnes :: "char \<Rightarrow> nat" where
  "leadingOnes b =
     (if \<not> digit7 b then 0 else if \<not> digit6 b then 1 else if \<not> digit5 b then 2
      else if \<not> digit4 b then 3 else if \<not> digit3 b then 4 else 5)"

text \<open>The bytes of the next \<open>j\<close> escapes \<open>%XX\<close>, which must follow at once.\<close>

fun continuationBytes :: "nat \<Rightarrow> string \<Rightarrow> string option" where
  "continuationBytes 0 s = Some []"
| "continuationBytes (Suc j) s =
     (case s of
        [] \<Rightarrow> None
      | c # rest \<Rightarrow>
          if c \<noteq> CHR ''%'' then None
          else (case parseHexOctet rest of
                  None \<Rightarrow> None
                | Some b \<Rightarrow> map_option ((#) b) (continuationBytes j (drop 2 rest))))"

text \<open>
  The well-formed UTF-8 sequences of two, three and four bytes: no overlong forms, no
  surrogates, nothing above U+10FFFF.
\<close>

definition inRange :: "nat \<Rightarrow> nat \<Rightarrow> char \<Rightarrow> bool" where
  "inRange lo hi c = (lo \<le> of_char c \<and> (of_char c :: nat) \<le> hi)"

fun validUtf8 :: "string \<Rightarrow> bool" where
  "validUtf8 [a, b] = (inRange 194 223 a \<and> inRange 128 191 b)"
| "validUtf8 [a, b, c] =
     ((inRange 224 224 a \<and> inRange 160 191 b \<and> inRange 128 191 c)
      \<or> (inRange 225 236 a \<and> inRange 128 191 b \<and> inRange 128 191 c)
      \<or> (inRange 237 237 a \<and> inRange 128 159 b \<and> inRange 128 191 c)
      \<or> (inRange 238 239 a \<and> inRange 128 191 b \<and> inRange 128 191 c))"
| "validUtf8 [a, b, c, d] =
     ((inRange 240 240 a \<and> inRange 144 191 b \<and> inRange 128 191 c \<and> inRange 128 191 d)
      \<or> (inRange 241 243 a \<and> inRange 128 191 b \<and> inRange 128 191 c \<and> inRange 128 191 d)
      \<or> (inRange 244 244 a \<and> inRange 128 143 b \<and> inRange 128 191 c \<and> inRange 128 191 d))"
| "validUtf8 bs = False"

text \<open>
  The decoding proper. A character other than \<open>%\<close> is copied. An escape with no
  leading 1 bit is one character. A lead byte of one or of more than four leading 1
  bits, a missing or malformed continuation escape, and a byte sequence that is not
  well-formed UTF-8 raise the error. A decoded character outside ASCII is kept as its
  UTF-8 bytes.
\<close>

function decodeURIComponent :: "string \<Rightarrow> string option" where
  "decodeURIComponent [] = Some []"
| "decodeURIComponent (c # cs) =
     (if c \<noteq> CHR ''%'' then map_option ((#) c) (decodeURIComponent cs)
      else (case parseHexOctet cs of
        None \<Rightarrow> None
      | Some b \<Rightarrow>
          (let n = leadingOnes b in
           if n = 0 then map_option ((#) b) (decodeURIComponent (drop 2 cs))
           else if n = 1 \<or> 4 < n then None
           else (case continuationBytes (n - 1) (drop 2 cs) of
                   None \<Rightarrow> None
                 | Some bs \<Rightarrow>
                     if validUtf8 (b # bs)
                     then map_option ((@) (b # bs)) (decodeURIComponent (drop (2 + 3 * (n - 1)) cs))
                     else None))))"
  by pat_completeness auto
termination
  by (relation "measure length") auto

declare decodeURIComponent.simps [simp del]

section \<open>Notions used in the statements\<close>

text \<open>Three attempts in a row fail.\<close>

definition gaveUp :: "'a attempts \<Rightarrow> bool" where
  "gaveUp att = (isl (att 0) \<and> isl (att 1) \<and> isl (att 2))"

text \<open>What three attempts come to: the first result, or else the third error.\<close>

definition settled :: "'a attempts \<Rightarrow> error + 'a js" where
  "settled att =
     (case att 0 of
        Inr v \<Rightarrow> Inr v
      | Inl e0 \<Rightarrow> (case att 1 of Inr v \<Rightarrow> Inr v | Inl e1 \<Rightarrow> att 2))"

text \<open>The events that are requests to the stats API.\<close>

definition isFetch :: "event \<Rightarrow> bool" where
  "isFetch ev = (case ev of Fetch ep \<Rightarrow> True | _ \<Rightarrow> False)"

text \<open>One of the four requests made for a team fails three times in a row.\<close>

definition teamGaveUp :: "world \<Rightarrow> team_cfg \<Rightarrow> bool" where
  "teamGaveUp w cfg =
     (gaveUp (w_teamInfo w (cfg_id cfg)) \<or> gaveUp (w_teamMatches w (cfg_id cfg))
      \<or> gaveUp (w_teamPlayers w (cfg_id cfg)) \<or> gaveUp (w_teamHeroes w (cfg_id cfg)))"

text \<open>
  A request without a \<open>catch\<close> of its own fails for good: the hero stats, or one of the
  four requests of a tracked team.
\<close>

definition essentialGaveUp :: "world \<Rightarrow> bool" where
  "essentialGaveUp w = (gaveUp (w_heroStats w) \<or> list_ex (\<lambda>kc. teamGaveUp w (snd kc)) TEAMS)"

text \<open>
  The flag is up exactly while one cycle is between its two parts, and there is never
  more than one.
\<close>

definition flagInv :: "system \<Rightarrow> bool" where
  "flagInv c = (running c \<le> 1 \<and> (isRefreshing (vars c) \<longleftrightarrow> running c = 1))"

text \<open>
  A team name matches a tracked team, as the scraper tests it: lower-cased, it contains
  one of the lookup's patterns or is contained in one.
\<close>

definition matchesTracked :: "string \<Rightarrow> bool" where
  "matchesTracked title =
     list_ex (\<lambda>(pattern, key). str_includes (toLowerCase title) pattern
                                \<or> str_includes pattern (toLowerCase title)) teamLookup"

text \<open>
  The team names of a block: the titles its team links yield, in the order of insertion.
\<close>

definition teamNamesOf :: "block \<Rightarrow> string list" where
  "teamNamesOf b = fst (scanTeams (teamImg b) [] [])"

text \<open>
  What holds of every series the first loop builds: it has a game, all its games have
  the series' opponent id and league, and its two counters count its won and its other
  games.
\<close>

definition wellFormed :: "'a open_series_scheme \<Rightarrow> bool" where
  "wellFormed s =
     (open_series.games s \<noteq> []
      \<and> (\<forall>m \<in> set (open_series.games s).
            opposing_team_id m = opponentId s \<and> leagueOf m = open_series.league s)
      \<and> open_series.wins s = length (filter didWin (open_series.games s))
      \<and> losses s = length (filter (\<lambda>m. \<not> didWin m) (open_series.games s)))"

section \<open>Example inputs\<close>

text \<open>
  A world in which every request is answered at the first attempt (with little data),
  apart from the match details and the wiki page; the same world with the hero stats
  failing for good; and with the live games failing for good.
\<close>

definition worldUp :: world where
  "worldUp =
     \<lparr>w_teamInfo = (\<lambda>tid i. Inr (Val ''{}'')),
      w_teamMatches = (\<lambda>tid i. Inr (Val [])),
      w_teamPlayers = (\<lambda>tid i. Inr (Val [])),
      w_teamHeroes = (\<lambda>tid i. Inr (Val [])),
      w_heroStats = (\<lambda>i. Inr (Val [])),
      w_live = (\<lambda>i. Inr (Val [\<lparr>radiant_team_id = Val 726228, dire_team_id = Null, game_data = ''{}''\<rparr>])),
      w_proPlayers = (\<lambda>i. Inr (Val [])),
      w_matchDetail = (\<lambda>k mid i. Inl (Error ''Rate limited'')),
      w_wiki = GetFailed (Error ''HTTP 503''),
      w_scrapeNow = 1700000000000,
      w_doneNow = 1700000000500\<rparr>"

definition heroStatsDown :: world where
  "heroStatsDown = worldUp\<lparr>w_heroStats := (\<lambda>i. Inl (Error ''Rate limited''))\<rparr>"

definition liveDown :: world where
  "liveDown = worldUp\<lparr>w_live := (\<lambda>i. Inl (Error ''Rate limited''))\<rparr>"

text \<open>
  A snapshot and the outside of a request, for the examples.
\<close>

definition exampleSnapshot :: snapshot where
  "exampleSnapshot =
     \<lparr>teams = [], heroMap = Map.empty, liveMatches = [], upcoming = [], teamConfig = TEAMS,
      lastUpdated = 1700000000000, liveUpdated = None\<rparr>"

definition exampleEnv :: request_env where
  "exampleEnv =
     \<lparr>r_decodeURIComponent = decodeURIComponent,
      r_player = (\<lambda>i. Inr (Val [\<lparr>player_hero.hero_id = Val 1, player_hero.games = Val 3, player_hero.win = Val 2\<rparr>,
                                   \<lparr>player_hero.hero_id = Val 2, player_hero.games = Val 0, player_hero.win = Null\<rparr>])),
      r_now = 1700000000000,
      r_later = 1700000000250,
      r_img = (\<lambda>k. Rejected (Error ''HTTP 404'')),
      r_fuel = 5,
      r_readFile = (\<lambda>p. None)\<rparr>"

text \<open>
  The same outside, with an image host that redirects the first request to another host,
  which answers with bytes.
\<close>

definition redirectEnv :: request_env where
  "redirectEnv =
     exampleEnv\<lparr>r_img := (\<lambda>k. if k = 0 then Redirected ''https://example.org/x.png''
                                else Ok200 ''PNG'' None)\<rparr>"

text \<open>
  The configuration after the first call of \<open>refreshAllData\<close>: one cycle is running.
\<close>

definition cycleRunning :: system where
  "cycleRunning = \<lparr>vars = initial\<lparr>isRefreshing := True\<rparr>, running = 1\<rparr>"

text \<open>
  A block for a match of a tracked team whose \<open>data-timestamp\<close> is 0, and the same
  block with a start in September 2020.
\<close>

definition epochBlock :: block where
  "epochBlock =
     \<lparr>teamImg = [(''Xtreme Gaming'', ''/commons/images/xg_allmode.png''),
                 (''Team Spirit'', ''/commons/images/spirit.png'')],
      data_timestamp = Some 0, tournTitle = Some ''DreamLeague/28/Group_Stage_1#A'',
      boDigit = Some CHR ''3''\<rparr>"

definition oldBlock :: block where
  "oldBlock = epochBlock\<lparr>data_timestamp := Some 1600000000\<rparr>"

text \<open>
  Three matches against one opponent in one league: two an hour apart, both won, and a
  third, lost, more than a day later.
\<close>

definition exampleMatches :: "match list" where
  "exampleMatches =
     [\<lparr>match_id = 101, radiant = Val True, radiant_win = Val True, start_time = Val 1700000000,
       opposing_team_id = Val 15, opposing_team_name = Val ''Team Spirit'',
       league_name = Val ''DreamLeague'', leagueid = Val 7\<rparr>,
      \<lparr>match_id = 103, radiant = Val True, radiant_win = Val False, start_time = Val 1700100000,
       opposing_team_id = Val 15, opposing_team_name = Val ''Team Spirit'',
       league_name = Val ''DreamLeague'', leagueid = Val 7\<rparr>,
      \<lparr>match_id = 102, radiant = Val False, radiant_win = Val False, start_time = Val 1700003600,
       opposing_team_id = Val 15, opposing_team_name = Val ''Team Spirit'',
       league_name = Val ''DreamLeague'', leagueid = Val 7\<rparr>]"

section \<open>Properties of the fetch layer\<close>

text \<open>With three tries, \<open>fetchWithRetry\<close> is one of four runs.\<close>

lemma fetchWithRetry_unfold:
  "fetchWithRetry ep att =
     (case att 0 of
        Inr v \<Rightarrow> (Inr v, [Fetch ep])
      | Inl e0 \<Rightarrow>
          (case att 1 of
             Inr v \<Rightarrow> (Inr v, [Fetch ep, Sleep 1000, Fetch ep])
           | Inl e1 \<Rightarrow>
               (case att 2 of
                  Inr v \<Rightarrow> (Inr v, [Fetch ep, Sleep 1000, Fetch ep, Sleep 2000, Fetch ep])
                | Inl e2 \<Rightarrow> (Inl e2, [Fetch ep, Sleep 1000, Fetch ep, Sleep 2000, Fetch ep]))))"
proof -
  have l2: "fetchLoop ep att 3 2 =
      (case att 2 of Inr v \<Rightarrow> (Inr v, [Fetch ep]) | Inl e \<Rightarrow> (Inl e, [Fetch ep]))"
    by (subst fetchLoop.simps) (simp split: sum.splits)
  have l1: "fetchLoop ep att 3 1 =
      (case att 1 of Inr v \<Rightarrow> (Inr v, [Fetch ep])
       | Inl e \<Rightarrow> (let (r, evs) = fetchLoop ep att 3 2 in (r, Fetch ep # Sleep 2000 # evs)))"
    by (subst fetchLoop.simps) (simp add: numeral_2_eq_2 split: sum.splits)
  have l0: "fetchLoop ep att 3 0 =
      (case att 0 of Inr v \<Rightarrow> (Inr v, [Fetch ep])
       | Inl e \<Rightarrow> (let (r, evs) = fetchLoop ep att 3 1 in (r, Fetch ep # Sleep 1000 # evs)))"
    by (subst fetchLoop.simps) (simp split: sum.splits)
  show ?thesis
    unfolding fetchWithRetry_def fetchWithRetryN_def l0 l1 l2
    by (simp split: sum.splits)
qed

lemma fetchWithRetry_fails_iff: "isl (fst (fetchWithRetry ep att)) = gaveUp att"
  by (simp add: fetchWithRetry_unfold gaveUp_def split: sum.splits)

lemma fetchWithRetry_result_indep: "fst (fetchWithRetry ep att) = fst (fetchWithRetry ep' att)"
  by (simp add: fetchWithRetry_unfold split: sum.splits)

text \<open>
  C4. \<open>fetchWithRetry\<close> makes at most three attempts. It returns the first result that
  arrives; after the first failure it waits 1000 ms, after the second 2000 ms, and the
  third failure in a row is thrown to the caller as it is. The wiki scrape makes its one
  request and no other, whatever the answer.
\<close>

theorem fetchWithRetry_linear_backoff:
  "fetchWithRetry ep att =
     (case att 0 of
        Inr v \<Rightarrow> (Inr v, [Fetch ep])
      | Inl e0 \<Rightarrow>
          (case att 1 of
             Inr v \<Rightarrow> (Inr v, [Fetch ep, Sleep (1000 * (0 + 1)), Fetch ep])
           | Inl e1 \<Rightarrow>
               (case att 2 of
                  Inr v \<Rightarrow> (Inr v, [Fetch ep, Sleep (1000 * (0 + 1)), Fetch ep,
                                     Sleep (1000 * (1 + 1)), Fetch ep])
                | Inl e2 \<Rightarrow> (Inl e2, [Fetch ep, Sleep (1000 * (0 + 1)), Fetch ep,
                                       Sleep (1000 * (1 + 1)), Fetch ep]))))
   \<and> length (filter isFetch (snd (fetchWithRetry ep att))) \<le> 3
   \<and> snd (fetchUpcoming wiki now) = [HttpsGet wikiUrl]"
  by (simp add: fetchWithRetry_unfold fetchUpcoming_def isFetch_def split: sum.splits)

theorem fetchWithRetry_linear_backoff_witness:
  "fetchWithRetry ''/live'' (\<lambda>i. if i < 2 then Inl (Error ''Rate limited'') else Inr (Val [7::nat]))
     = (Inr (Val [7]), [Fetch ''/live'', Sleep 1000, Fetch ''/live'', Sleep 2000, Fetch ''/live''])
   \<and> fetchWithRetry ''/live'' (\<lambda>i. Inl (Error (show_nat i))) 
     = (Inl (Error ''2'') :: error + nat js,
        [Fetch ''/live'', Sleep 1000, Fetch ''/live'', Sleep 2000, Fetch ''/live''])
   \<and> snd (fetchUpcoming (GetFailed (Error ''HTTP 503'')) 0) = [HttpsGet wikiUrl]"
  using fetchWithRetry_linear_backoff
          [of "''/live''" "\<lambda>i. if i < 2 then Inl (Error ''Rate limited'') else Inr (Val [7::nat])"
              "GetFailed (Error ''HTTP 503'')" 0]
        fetchWithRetry_linear_backoff
          [of "''/live''" "\<lambda>i. Inl (Error (show_nat i)) :: error + nat js" ParseFailed 0]
  by (simp add: show_nat.simps digit_char_def)

section \<open>Properties of the refresh cycle\<close>

lemma fst_fetchWithRetry: "fst (fetchWithRetry ep att) = settled att"
  by (simp add: fetchWithRetry_unfold settled_def split: sum.splits)

lemma isl_settled: "isl (settled att) = gaveUp att"
  by (simp add: settled_def gaveUp_def split: sum.splits)

lemma teamPromise_fails_iff: "isl (fst (teamPromise w kc)) = teamGaveUp w (snd kc)"
  unfolding teamPromise_def teamGaveUp_def Let_def case_prod_beta isl_settled[symmetric]
  by (simp add: fst_fetchWithRetry split: sum.splits)

lemma promiseAll_fails_iff: "isl (promiseAll ps) = list_ex isl ps"
  by (induction ps rule: promiseAll.induct) (auto split: sum.splits)

lemma teamPromises_fail_iff:
  "list_ex isl (map fst (map (teamPromise w) xs)) = list_ex (\<lambda>kc. teamGaveUp w (snd kc)) xs"
  by (induction xs) (simp_all add: teamPromise_fails_iff)

lemma fanout_fails_iff: "isl (fst (fanout w)) = essentialGaveUp w"
  unfolding fanout_def essentialGaveUp_def teamPromises_fail_iff[symmetric] isl_settled[symmetric]
    promiseAll_fails_iff[symmetric] Let_def case_prod_beta
  by (simp add: fst_fetchWithRetry split: sum.splits)

lemma refreshBody_fails_iff: "isl (fst (refreshBody w)) = essentialGaveUp w"
  unfolding fanout_fails_iff[symmetric] refreshBody_def
  by (auto simp: Let_def split: prod.splits sum.splits)

lemma settle_result:
  "fst (refreshAllData_settle w s) =
     (case fst (refreshBody w) of
        Inr snap \<Rightarrow> s\<lparr>cachedData := Some snap, isRefreshing := False\<rparr>
      | Inl err \<Rightarrow> s\<lparr>isRefreshing := False\<rparr>)"
  by (simp add: refreshAllData_settle_def split: prod.splits sum.splits)

lemma settle_clears_flag: "isRefreshing (fst (refreshAllData_settle w s)) = False"
  by (simp add: settle_result split: sum.splits)

lemma refreshLiveOnly_keeps_flag:
  "isRefreshing (fst (refreshLiveOnly att now s)) = isRefreshing s"
  by (simp add: refreshLiveOnly_def split: prod.splits option.splits)

lemma getPlayerHeroes_keeps:
  "getPlayerHeroes att now later s a = (r, s', evs) \<Longrightarrow>
     isRefreshing s' = isRefreshing s \<and> cachedData s' = cachedData s \<and> imgCache s' = imgCache s"
  by (auto simp: getPlayerHeroes_def Let_def split: option.splits prod.splits sum.splits)

lemma handle_flag:
  "handle env s u = (r, s', evs, started) \<Longrightarrow>
     (started \<longrightarrow> \<not> isRefreshing s \<and> isRefreshing s') \<and> (\<not> started \<longrightarrow> isRefreshing s' = isRefreshing s)"
  unfolding handle_def Let_def refreshAllData_enter_def
  by (auto split: if_splits option.splits prod.splits sum.splits error.splits dest: getPlayerHeroes_keeps)

lemma step_inv: "step c c' \<Longrightarrow> flagInv c \<Longrightarrow> flagInv c'"
proof (induction rule: step.induct)
  case (call c s' started)
  then show ?case by (auto simp: flagInv_def refreshAllData_enter_def split: if_splits)
next
  case (settle c w)
  then show ?case by (auto simp: flagInv_def settle_clears_flag)
next
  case (live c att now)
  then show ?case by (auto simp: flagInv_def refreshLiveOnly_keeps_flag)
next
  case (request env c req_url r s' evs started)
  from handle_flag[OF request(1)] request(3) show ?case by (auto simp: flagInv_def)
qed

lemma reachable_inv: "reachable c \<Longrightarrow> flagInv c"
  unfolding reachable_def
proof (induction rule: rtranclp_induct)
  case base
  then show ?case by (simp add: flagInv_def start_def initial_def)
next
  case (step y z)
  then show ?case using step_inv by blast
qed

lemma fst_refreshBody:
  "fst (refreshBody w) =
     (case fst (fanout w) of
        Inl err \<Rightarrow> Inl err
      | Inr (heroStats, live, proPlayers, teamResults) \<Rightarrow>
          Inr \<lparr>teams = fold (\<lambda>t al. AList.update (key t)
                           (withRoster (fst (buildCurrentRosters w teamResults proPlayers)) t) al)
                        teamResults [],
               heroMap = fold (\<lambda>h m. m(id' h \<mapsto> h)) (orElse heroStats []) Map.empty,
               liveMatches = filterLive live,
               upcoming = fst (fetchUpcoming (w_wiki w) (w_scrapeNow w)),
               teamConfig = TEAMS, lastUpdated = w_doneNow w, liveUpdated = None\<rparr>)"
  by (simp add: refreshBody_def Let_def case_prod_beta split: prod.splits sum.splits)

lemma fst_fanout:
  "fst (fanout w) =
     (case settled (w_heroStats w) of
        Inl err \<Rightarrow> Inl err
      | Inr hs \<Rightarrow>
          (case promiseAll (map fst (map (teamPromise w) TEAMS)) of
             Inl err \<Rightarrow> Inl err
           | Inr teamResults \<Rightarrow>
               Inr (hs, catchEmpty (settled (w_live w)), catchEmpty (settled (w_proPlayers w)),
                    teamResults)))"
  by (simp add: fanout_def Let_def case_prod_beta fst_fetchWithRetry cong: sum.case_cong)

lemma catchEmpty_gaveUp: "gaveUp att \<Longrightarrow> catchEmpty (settled att) = Val []"
  by (cases "settled att") (use isl_settled[of att] in auto)

lemma settled_const: "settled (\<lambda>i. Inr v) = Inr v"
  by (simp add: settled_def)

lemma teamRoster_cong:
  assumes "w_matchDetail w' = w_matchDetail w"
  shows "teamRoster w' pn t = teamRoster w pn t"
  unfolding teamRoster_def assms by (rule refl)

lemma rosterLoop_cong:
  assumes "w_matchDetail w' = w_matchDetail w"
  shows "rosterLoop w' pn ts rs = rosterLoop w pn ts rs"
proof (induction ts arbitrary: rs)
  case Nil
  show ?case by simp
next
  case (Cons t ts)
  have "teamRoster w' pn t = teamRoster w pn t"
    using assms by (rule teamRoster_cong)
  then show ?case by (simp add: Cons.IH)
qed

lemma teamPromise_live: "teamPromise (w\<lparr>w_live := x\<rparr>) = teamPromise w"
  by (rule ext) (simp add: teamPromise_def)

lemma teamPromise_proPlayers: "teamPromise (w\<lparr>w_proPlayers := x\<rparr>) = teamPromise w"
  by (rule ext) (simp add: teamPromise_def)

lemma fanout_live_down:
  "gaveUp (w_live w) \<Longrightarrow> fst (fanout (w\<lparr>w_live := (\<lambda>i. Inr (Val []))\<rparr>)) = fst (fanout w)"
  by (simp add: fst_fanout catchEmpty_gaveUp settled_const teamPromise_live cong: sum.case_cong)

lemma fanout_proPlayers_down:
  "gaveUp (w_proPlayers w) \<Longrightarrow> fst (fanout (w\<lparr>w_proPlayers := (\<lambda>i. Inr (Val []))\<rparr>)) = fst (fanout w)"
  by (simp add: fst_fanout catchEmpty_gaveUp settled_const teamPromise_proPlayers cong: sum.case_cong)

lemma refreshBody_live_down:
  "gaveUp (w_live w) \<Longrightarrow> fst (refreshBody (w\<lparr>w_live := (\<lambda>i. Inr (Val []))\<rparr>)) = fst (refreshBody w)"
  by (simp add: fst_refreshBody fanout_live_down buildCurrentRosters_def
        rosterLoop_cong[of "w\<lparr>w_live := (\<lambda>i. Inr (Val []))\<rparr>" w]
        cong: sum.case_cong)

lemma refreshBody_proPlayers_down:
  "gaveUp (w_proPlayers w) \<Longrightarrow>
     fst (refreshBody (w\<lparr>w_proPlayers := (\<lambda>i. Inr (Val []))\<rparr>)) = fst (refreshBody w)"
  by (simp add: fst_refreshBody fanout_proPlayers_down buildCurrentRosters_def
        rosterLoop_cong[of "w\<lparr>w_proPlayers := (\<lambda>i. Inr (Val []))\<rparr>" w]
        cong: sum.case_cong)

lemma refreshBody_liveMatches:
  assumes "fst (refreshBody w) = Inr snap"
  shows "liveMatches snap = filterLive (catchEmpty (settled (w_live w)))"
proof (cases "fst (fanout w)")
  case (Inl err)
  with assms show ?thesis by (simp add: fst_refreshBody)
next
  case (Inr r)
  obtain hs lv pp trs where r: "r = (hs, lv, pp, trs)" by (cases r) auto
  have "lv = catchEmpty (settled (w_live w))"
    using Inr r by (simp add: fst_fanout split: sum.splits)
  moreover have "liveMatches snap = filterLive lv"
    using assms Inr r by (auto simp: fst_refreshBody)
  ultimately show ?thesis by simp
qed

lemma refreshBody_live_empty:
  "gaveUp (w_live w) \<Longrightarrow> fst (refreshBody w) = Inr snap \<Longrightarrow> liveMatches snap = []"
  by (simp add: refreshBody_liveMatches catchEmpty_gaveUp filterLive_def)

text \<open>
  C1, as the code has it. The live-games and the pro-player requests are the only ones
  of the fan-out with a \<open>catch\<close>: when one of them fails for good, the snapshot is
  assembled and stored exactly as if that endpoint had answered with an empty list (so
  the live matches are empty). When the hero stats or one of the four requests of a
  tracked team fail for good, the cycle is abandoned: nothing is stored, the cache keeps
  what it had, and the flag is lowered.
\<close>

theorem refresh_partial_failure:
  "(essentialGaveUp w \<longrightarrow> fst (refreshAllData_settle w s) = s\<lparr>isRefreshing := False\<rparr>)
   \<and> (\<not> essentialGaveUp w \<longrightarrow>
        (\<exists>snap. fst (refreshBody w) = Inr snap
           \<and> fst (refreshAllData_settle w s) = s\<lparr>cachedData := Some snap, isRefreshing := False\<rparr>
           \<and> (gaveUp (w_live w) \<longrightarrow>
                 liveMatches snap = []
                 \<and> fst (refreshBody (w\<lparr>w_live := (\<lambda>i. Inr (Val []))\<rparr>)) = Inr snap)
           \<and> (gaveUp (w_proPlayers w) \<longrightarrow>
                 fst (refreshBody (w\<lparr>w_proPlayers := (\<lambda>i. Inr (Val []))\<rparr>)) = Inr snap)))"
proof (cases "essentialGaveUp w")
  case True
  then have "isl (fst (refreshBody w))" by (simp add: refreshBody_fails_iff)
  then obtain err where "fst (refreshBody w) = Inl err" by (auto simp: isl_def)
  with True show ?thesis by (simp add: settle_result)
next
  case False
  then have "\<not> isl (fst (refreshBody w))" by (simp add: refreshBody_fails_iff)
  then obtain snap where snap: "fst (refreshBody w) = Inr snap"
    by (cases "fst (refreshBody w)") auto
  have "fst (refreshAllData_settle w s) = s\<lparr>cachedData := Some snap, isRefreshing := False\<rparr>"
    by (simp add: settle_result snap)
  moreover have "gaveUp (w_live w) \<longrightarrow> liveMatches snap = []"
    using snap by (simp add: refreshBody_live_empty)
  moreover have "gaveUp (w_live w) \<longrightarrow> fst (refreshBody (w\<lparr>w_live := (\<lambda>i. Inr (Val []))\<rparr>)) = Inr snap"
    using snap by (simp add: refreshBody_live_down)
  moreover have "gaveUp (w_proPlayers w)
      \<longrightarrow> fst (refreshBody (w\<lparr>w_proPlayers := (\<lambda>i. Inr (Val []))\<rparr>)) = Inr snap"
    using snap by (simp add: refreshBody_proPlayers_down)
  ultimately show ?thesis using False snap by simp
qed

lemma worldUp_ok: "\<not> essentialGaveUp worldUp"
  by (simp add: essentialGaveUp_def teamGaveUp_def gaveUp_def worldUp_def TEAMS_def)

lemma liveDown_ok: "\<not> essentialGaveUp liveDown"
  by (simp add: essentialGaveUp_def teamGaveUp_def gaveUp_def worldUp_def liveDown_def TEAMS_def)

lemma heroStatsDown_bad: "essentialGaveUp heroStatsDown"
  by (simp add: essentialGaveUp_def gaveUp_def heroStatsDown_def)

text \<open>
  C1 as stated fails: with only the hero stats failing, no snapshot is stored, while the
  same world with the hero stats answering stores one.
\<close>

theorem refresh_one_failure_counterexample:
  "gaveUp (w_heroStats heroStatsDown)
   \<and> cachedData (fst (refreshAllData heroStatsDown initial)) = None
   \<and> cachedData (fst (refreshAllData worldUp initial)) \<noteq> None"
proof -
  have "isl (fst (refreshBody heroStatsDown))"
    by (simp add: refreshBody_fails_iff heroStatsDown_bad)
  then obtain err where e: "fst (refreshBody heroStatsDown) = Inl err"
    by (auto simp: isl_def)
  have "\<not> isl (fst (refreshBody worldUp))"
    by (simp add: refreshBody_fails_iff worldUp_ok)
  then obtain snap where s: "fst (refreshBody worldUp) = Inr snap"
    by (cases "fst (refreshBody worldUp)") auto
  have g: "gaveUp (w_heroStats heroStatsDown)"
    by (simp add: gaveUp_def heroStatsDown_def)
  have a: "cachedData (fst (refreshAllData heroStatsDown initial)) = None"
    by (simp add: refreshAllData_def refreshAllData_enter_def initial_def settle_result e)
  have b: "cachedData (fst (refreshAllData worldUp initial)) \<noteq> None"
    by (simp add: refreshAllData_def refreshAllData_enter_def initial_def settle_result s)
  from g a b show ?thesis by simp
qed

theorem refresh_partial_failure_witness:
  "fst (refreshAllData_settle heroStatsDown (initial\<lparr>isRefreshing := True\<rparr>)) = initial
   \<and> (\<exists>snap. fst (refreshAllData_settle liveDown (initial\<lparr>isRefreshing := True\<rparr>))
               = initial\<lparr>cachedData := Some snap\<rparr>
            \<and> liveMatches snap = []
            \<and> fst (refreshBody (liveDown\<lparr>w_live := (\<lambda>i. Inr (Val []))\<rparr>)) = Inr snap)"
proof -
  have g: "gaveUp (w_live liveDown)"
    by (simp add: gaveUp_def liveDown_def)
  have i: "initial\<lparr>isRefreshing := True, isRefreshing := False\<rparr> = initial"
    by (simp add: initial_def)
  from refresh_partial_failure [of heroStatsDown "initial\<lparr>isRefreshing := True\<rparr>"]
  have a: "fst (refreshAllData_settle heroStatsDown (initial\<lparr>isRefreshing := True\<rparr>)) = initial"
    using heroStatsDown_bad i by simp
  from refresh_partial_failure [of liveDown "initial\<lparr>isRefreshing := True\<rparr>"]
  obtain snap where
    "fst (refreshAllData_settle liveDown (initial\<lparr>isRefreshing := True\<rparr>))
       = initial\<lparr>isRefreshing := True, cachedData := Some snap, isRefreshing := False\<rparr>"
    "liveMatches snap = []"
    "fst (refreshBody (liveDown\<lparr>w_live := (\<lambda>i. Inr (Val []))\<rparr>)) = Inr snap"
    using liveDown_ok g by blast
  moreover have "initial\<lparr>isRefreshing := True, cachedData := Some snap, isRefreshing := False\<rparr>
      = initial\<lparr>cachedData := Some snap\<rparr>"
    by (simp add: initial_def)
  ultimately show ?thesis using a by auto
qed

text \<open>
  C10. The cached snapshot is written only at the end of a \<open>try\<close> block that ran
  through. When the block ends in an exception, \<open>cachedData\<close> is what it was, for the
  second part of the cycle and for a whole call; a call changes \<open>cachedData\<close> only if
  no refresh was running and the block produced a snapshot, which is then the cache; the
  first part of a call never touches \<open>cachedData\<close>. The block ends in an exception
  exactly when the hero stats or a request of a tracked team fail for good.
\<close>

theorem refresh_atomic:
  "(isl (fst (refreshBody w)) \<longrightarrow>
      cachedData (fst (refreshAllData_settle w s)) = cachedData s
      \<and> cachedData (fst (refreshAllData w s)) = cachedData s)
   \<and> (cachedData (fst (refreshAllData w s)) \<noteq> cachedData s \<longrightarrow>
        \<not> isRefreshing s
        \<and> (\<exists>snap. fst (refreshBody w) = Inr snap
                   \<and> fst (refreshAllData w s) = s\<lparr>cachedData := Some snap, isRefreshing := False\<rparr>))
   \<and> cachedData (fst (refreshAllData_enter s)) = cachedData s
   \<and> isl (fst (refreshBody w)) = essentialGaveUp w"
proof -
  have a: "isl (fst (refreshBody w)) \<longrightarrow> cachedData (fst (refreshAllData_settle w s)) = cachedData s"
    by (cases "fst (refreshBody w)") (simp_all add: settle_result)
  have b: "isl (fst (refreshBody w)) \<longrightarrow> cachedData (fst (refreshAllData w s)) = cachedData s"
    by (cases "fst (refreshBody w)")
       (simp_all add: refreshAllData_def refreshAllData_enter_def settle_result)
  have c: "cachedData (fst (refreshAllData w s)) \<noteq> cachedData s \<longrightarrow>
        \<not> isRefreshing s
        \<and> (\<exists>snap. fst (refreshBody w) = Inr snap
                   \<and> fst (refreshAllData w s) = s\<lparr>cachedData := Some snap, isRefreshing := False\<rparr>)"
    by (cases "fst (refreshBody w)")
       (simp_all add: refreshAllData_def refreshAllData_enter_def settle_result)
  have d: "cachedData (fst (refreshAllData_enter s)) = cachedData s"
    by (simp add: refreshAllData_enter_def)
  from a b c d refreshBody_fails_iff show ?thesis by blast
qed

theorem refresh_atomic_witness:
  "cachedData (fst (refreshAllData heroStatsDown (initial\<lparr>cachedData := Some exampleSnapshot\<rparr>)))
     = Some exampleSnapshot
   \<and> cachedData (fst (refreshAllData_settle heroStatsDown
                        (initial\<lparr>cachedData := Some exampleSnapshot, isRefreshing := True\<rparr>)))
     = Some exampleSnapshot"
  using refresh_atomic [of heroStatsDown "initial\<lparr>cachedData := Some exampleSnapshot\<rparr>"]
        refresh_atomic [of heroStatsDown "initial\<lparr>cachedData := Some exampleSnapshot, isRefreshing := True\<rparr>"]
        heroStatsDown_bad
  by simp

text \<open>
  C3. In every configuration the server can reach, at most one refresh cycle is between
  its two parts, and the flag is up exactly then. While it is up, a call of
  \<open>refreshAllData\<close> returns at once: it starts nothing, makes no request and leaves
  every variable as it is, so no step leads to two running cycles. The second part of a
  cycle lowers the flag whether the cycle stored a snapshot or failed.
\<close>

theorem refresh_never_overlaps:
  "reachable c \<Longrightarrow>
     running c \<le> 1
     \<and> (isRefreshing (vars c) \<longleftrightarrow> running c = 1)
     \<and> (isRefreshing (vars c) \<longrightarrow>
          refreshAllData_enter (vars c) = (vars c, False)
          \<and> refreshAllData w (vars c) = (vars c, [])
          \<and> (\<forall>c'. step c c' \<longrightarrow> running c' \<le> 1))
     \<and> \<not> isRefreshing (fst (refreshAllData_settle w (vars c)))"
proof -
  assume r: "reachable c"
  then have i: "flagInv c" by (rule reachable_inv)
  have "\<forall>c'. step c c' \<longrightarrow> running c' \<le> 1"
    using step_inv i by (auto simp: flagInv_def)
  with i show ?thesis
    by (simp add: flagInv_def refreshAllData_def refreshAllData_enter_def settle_clears_flag)
qed

lemma cycleRunning_reachable: "reachable cycleRunning"
proof -
  have "refreshAllData_enter (vars start) = (initial\<lparr>isRefreshing := True\<rparr>, True)"
    by (simp add: refreshAllData_enter_def start_def initial_def)
  from step.call [OF this] have "step start cycleRunning"
    by (simp add: cycleRunning_def start_def)
  then show ?thesis by (simp add: reachable_def)
qed

theorem refresh_never_overlaps_witness:
  "reachable cycleRunning
   \<and> running cycleRunning \<le> 1
   \<and> refreshAllData worldUp (vars cycleRunning) = (vars cycleRunning, [])
   \<and> \<not> isRefreshing (fst (refreshAllData_settle heroStatsDown (vars cycleRunning)))
   \<and> \<not> isRefreshing (fst (refreshAllData_settle worldUp (vars cycleRunning)))"
  using refresh_never_overlaps [OF cycleRunning_reachable, of worldUp]
        refresh_never_overlaps [OF cycleRunning_reachable, of heroStatsDown]
        cycleRunning_reachable
  by (simp add: cycleRunning_def)

section \<open>Properties of the data route\<close>

text \<open>
  C6. A request whose path is \<open>/api/data\<close> is answered with status 200 and the
  cached snapshot when there is one, with status 503 and an error body when there is
  none; it makes no request and leaves the server's variables as they are.
\<close>

theorem api_data_cached_or_503:
  "pathOf req_url = ''/api/data'' \<Longrightarrow>
     handle env s req_url =
       (case cachedData s of
          Some snap \<Rightarrow> (Responded \<lparr>status = 200, body = JsonSnapshot snap\<rparr>, s, [], False)
        | None \<Rightarrow> (Responded \<lparr>status = 503, body = JsonError ''Data is loading...''\<rparr>, s, [], False))"
  by (simp add: handle_def)

theorem api_data_cached_or_503_witness:
  "handle exampleEnv initial ''/api/data?x=1''
     = (Responded \<lparr>status = 503, body = JsonError ''Data is loading...''\<rparr>, initial, [], False)
   \<and> handle exampleEnv (initial\<lparr>cachedData := Some exampleSnapshot\<rparr>) ''/api/data''
     = (Responded \<lparr>status = 200, body = JsonSnapshot exampleSnapshot\<rparr>,
        initial\<lparr>cachedData := Some exampleSnapshot\<rparr>, [], False)"
  using api_data_cached_or_503 [of "''/api/data?x=1''" exampleEnv initial]
        api_data_cached_or_503 [of "''/api/data''" exampleEnv "initial\<lparr>cachedData := Some exampleSnapshot\<rparr>"]
  by (simp add: pathOf_def initial_def)

section \<open>Properties of the live-only refresh\<close>

text \<open>
  C7. The live-only refresh leaves the server's variables alone when there is no cached
  snapshot. When there is one, the new state differs from the old at most in the
  \<open>liveMatches\<close> and \<open>liveUpdated\<close> members of the snapshot: \<open>teams\<close>,
  \<open>heroMap\<close>, \<open>upcoming\<close>, \<open>teamConfig\<close> and \<open>lastUpdated\<close> are the same. The
  flag and the two other caches are never touched.
\<close>

theorem refreshLiveOnly_frame:
  "(cachedData s = None \<longrightarrow> fst (refreshLiveOnly att now s) = s)
   \<and> (\<forall>c. cachedData s = Some c \<longrightarrow>
         (\<exists>lm lu. fst (refreshLiveOnly att now s)
                     = s\<lparr>cachedData := Some (c\<lparr>liveMatches := lm, liveUpdated := lu\<rparr>)\<rparr>)
         \<and> (\<exists>c'. cachedData (fst (refreshLiveOnly att now s)) = Some c'
                \<and> teams c' = teams c \<and> heroMap c' = heroMap c \<and> upcoming c' = upcoming c
                \<and> teamConfig c' = teamConfig c \<and> lastUpdated c' = lastUpdated c))
   \<and> isRefreshing (fst (refreshLiveOnly att now s)) = isRefreshing s
   \<and> playerHeroCache (fst (refreshLiveOnly att now s)) = playerHeroCache s
   \<and> imgCache (fst (refreshLiveOnly att now s)) = imgCache s"
  by (cases "cachedData s") (auto simp: refreshLiveOnly_def case_prod_beta Let_def)

theorem refreshLiveOnly_frame_witness:
  "fst (refreshLiveOnly (w_live worldUp) 1700000060000 initial) = initial
   \<and> (\<exists>c'. cachedData (fst (refreshLiveOnly (w_live worldUp) 1700000060000
                              (initial\<lparr>cachedData := Some exampleSnapshot\<rparr>))) = Some c'
          \<and> teams c' = teams exampleSnapshot \<and> lastUpdated c' = lastUpdated exampleSnapshot)"
  using refreshLiveOnly_frame [of initial "w_live worldUp" 1700000060000]
        refreshLiveOnly_frame [of "initial\<lparr>cachedData := Some exampleSnapshot\<rparr>" "w_live worldUp" 1700000060000]
  by (auto simp: initial_def)



section \<open>Properties of the player-hero cache\<close>

lemma getPlayerHeroes_frame:
  "cachedData (fst (snd (getPlayerHeroes att now later s a))) = cachedData s
   \<and> isRefreshing (fst (snd (getPlayerHeroes att now later s a))) = isRefreshing s
   \<and> imgCache (fst (snd (getPlayerHeroes att now later s a))) = imgCache s"
  by (simp add: getPlayerHeroes_def Let_def split: option.splits prod.splits sum.splits)

lemma settle_keeps_playerHeroCache:
  "playerHeroCache (fst (refreshAllData_settle w s)) = playerHeroCache s"
  by (simp add: settle_result split: sum.splits)

lemma enter_keeps_playerHeroCache:
  "playerHeroCache (fst (refreshAllData_enter s)) = playerHeroCache s"
  by (simp add: refreshAllData_enter_def)

lemma refreshLiveOnly_keeps_playerHeroCache:
  "playerHeroCache (fst (refreshLiveOnly att now s)) = playerHeroCache s"
  by (simp add: refreshLiveOnly_def case_prod_beta Let_def split: option.splits)

text \<open>
  C9. When the cache holds an entry for the player that is younger than 30 minutes,
  \<open>getPlayerHeroes\<close> returns its data, makes no request and changes nothing.
  Otherwise it makes the request; when that succeeds, the result is the fetched list
  restricted to the heroes with more than 0 games, cut to its first 10 entries, and it
  is stored under the player's id with the clock of that moment and returned; when the
  request fails for good, nothing is stored. The cache
  and the snapshot do not meet: \<open>getPlayerHeroes\<close> leaves \<open>cachedData\<close> and the
  flag alone, and neither refresh touches \<open>playerHeroCache\<close>.
\<close>

theorem getPlayerHeroes_cache:
  "(\<forall>cached. playerHeroCache s a = Some cached
        \<and> now - hero_cache_entry.timestamp cached < 30 * 60 * 1000
      \<longrightarrow> getPlayerHeroes att now later s a = (Inr (hero_cache_entry.data cached), s, []))
   \<and> ((playerHeroCache s a = None
        \<or> (\<exists>cached. playerHeroCache s a = Some cached
               \<and> \<not> now - hero_cache_entry.timestamp cached < 30 * 60 * 1000))
       \<longrightarrow> (\<forall>fetched. settled att = Inr fetched \<longrightarrow>
             (let heroes = map toHeroStat (take 10 (filter playedSome (orElse fetched [])))
              in getPlayerHeroes att now later s a
                   = (Inr heroes,
                      s\<lparr>playerHeroCache := (playerHeroCache s)
                           (a \<mapsto> \<lparr>hero_cache_entry.data = heroes,
                                    hero_cache_entry.timestamp = later\<rparr>)\<rparr>,
                      snd (fetchWithRetry (''/players/'' @ show_nat a @ ''/heroes?game_mode=2'') att))
                 \<and> length heroes \<le> 10
                 \<and> (\<forall>h \<in> set heroes. hero_stat.games h > 0))))
   \<and> (gaveUp att \<longrightarrow> fst (snd (getPlayerHeroes att now later s a)) = s)
   \<and> cachedData (fst (snd (getPlayerHeroes att now later s a))) = cachedData s
   \<and> isRefreshing (fst (snd (getPlayerHeroes att now later s a))) = isRefreshing s
   \<and> playerHeroCache (fst (refreshAllData_settle w s)) = playerHeroCache s
   \<and> playerHeroCache (fst (refreshAllData_enter s)) = playerHeroCache s
   \<and> playerHeroCache (fst (refreshLiveOnly latt now s)) = playerHeroCache s"
proof -
  have hit: "\<forall>cached. playerHeroCache s a = Some cached
        \<and> now - hero_cache_entry.timestamp cached < 30 * 60 * 1000
      \<longrightarrow> getPlayerHeroes att now later s a = (Inr (hero_cache_entry.data cached), s, [])"
    by (simp add: getPlayerHeroes_def freshHeroes_def)
  have miss: "(playerHeroCache s a = None
        \<or> (\<exists>cached. playerHeroCache s a = Some cached
               \<and> \<not> now - hero_cache_entry.timestamp cached < 30 * 60 * 1000))
       \<longrightarrow> freshHeroes now s a = None"
    by (auto simp: freshHeroes_def)
  have games: "\<And>fetched. \<forall>h \<in> set (map toHeroStat (take 10 (filter playedSome (orElse fetched [])))).
      hero_stat.games h > 0"
    by (auto simp: toHeroStat_def playedSome_def dest!: in_set_takeD)
  have store: "\<And>fetched. freshHeroes now s a = None \<Longrightarrow> settled att = Inr fetched \<Longrightarrow>
      getPlayerHeroes att now later s a
        = (Inr (map toHeroStat (take 10 (filter playedSome (orElse fetched [])))),
           s\<lparr>playerHeroCache := (playerHeroCache s)
                (a \<mapsto> \<lparr>hero_cache_entry.data = map toHeroStat (take 10 (filter playedSome (orElse fetched []))),
                         hero_cache_entry.timestamp = later\<rparr>)\<rparr>,
           snd (fetchWithRetry (''/players/'' @ show_nat a @ ''/heroes?game_mode=2'') att))"
  proof -
    fix fetched
    assume f: "freshHeroes now s a = None" and st: "settled att = Inr fetched"
    have "fst (fetchWithRetry (''/players/'' @ show_nat a @ ''/heroes?game_mode=2'') att) = Inr fetched"
      using st by (simp add: fst_fetchWithRetry)
    then show "getPlayerHeroes att now later s a
        = (Inr (map toHeroStat (take 10 (filter playedSome (orElse fetched [])))),
           s\<lparr>playerHeroCache := (playerHeroCache s)
                (a \<mapsto> \<lparr>hero_cache_entry.data = map toHeroStat (take 10 (filter playedSome (orElse fetched []))),
                         hero_cache_entry.timestamp = later\<rparr>)\<rparr>,
           snd (fetchWithRetry (''/players/'' @ show_nat a @ ''/heroes?game_mode=2'') att))"
      using f
      by (cases "fetchWithRetry (''/players/'' @ show_nat a @ ''/heroes?game_mode=2'') att")
         (simp add: getPlayerHeroes_def Let_def)
  qed
  have missAll: "(playerHeroCache s a = None
        \<or> (\<exists>cached. playerHeroCache s a = Some cached
               \<and> \<not> now - hero_cache_entry.timestamp cached < 30 * 60 * 1000))
       \<longrightarrow> (\<forall>fetched. settled att = Inr fetched \<longrightarrow>
             (let heroes = map toHeroStat (take 10 (filter playedSome (orElse fetched [])))
              in getPlayerHeroes att now later s a
                   = (Inr heroes,
                      s\<lparr>playerHeroCache := (playerHeroCache s)
                           (a \<mapsto> \<lparr>hero_cache_entry.data = heroes,
                                    hero_cache_entry.timestamp = later\<rparr>)\<rparr>,
                      snd (fetchWithRetry (''/players/'' @ show_nat a @ ''/heroes?game_mode=2'') att))
                 \<and> length heroes \<le> 10
                 \<and> (\<forall>h \<in> set heroes. hero_stat.games h > 0)))"
    unfolding Let_def using miss store games by simp
  have fail: "gaveUp att \<longrightarrow> fst (snd (getPlayerHeroes att now later s a)) = s"
  proof
    assume "gaveUp att"
    then have "isl (fst (fetchWithRetry (''/players/'' @ show_nat a @ ''/heroes?game_mode=2'') att))"
      by (simp add: fetchWithRetry_fails_iff)
    then show "fst (snd (getPlayerHeroes att now later s a)) = s"
      by (cases "fetchWithRetry (''/players/'' @ show_nat a @ ''/heroes?game_mode=2'') att")
         (auto simp: getPlayerHeroes_def isl_def split: option.splits)
  qed
  from hit missAll fail getPlayerHeroes_frame settle_keeps_playerHeroCache
    enter_keeps_playerHeroCache refreshLiveOnly_keeps_playerHeroCache
  show ?thesis by blast
qed

theorem getPlayerHeroes_cache_witness:
  "getPlayerHeroes (r_player exampleEnv) 1700000000000 1700000000250
       (initial\<lparr>playerHeroCache := [42 \<mapsto> \<lparr>hero_cache_entry.data = [],
                                                  hero_cache_entry.timestamp = 1699999000000\<rparr>]\<rparr>) 42
     = (Inr [], initial\<lparr>playerHeroCache := [42 \<mapsto> \<lparr>hero_cache_entry.data = [],
                                                  hero_cache_entry.timestamp = 1699999000000\<rparr>]\<rparr>, [])
   \<and> fst (getPlayerHeroes (r_player exampleEnv) 1700000000000 1700000000250 initial 42)
     = Inr [\<lparr>hero_stat.hero_id = Val 1, hero_stat.games = 3, hero_stat.win = 2\<rparr>]
   \<and> playerHeroCache (fst (snd (getPlayerHeroes (r_player exampleEnv) 1700000000000 1700000000250 initial 42))) 42
     = Some \<lparr>hero_cache_entry.data = [\<lparr>hero_stat.hero_id = Val 1, hero_stat.games = 3, hero_stat.win = 2\<rparr>],
             hero_cache_entry.timestamp = 1700000000250\<rparr>"
  using getPlayerHeroes_cache
          [of "initial\<lparr>playerHeroCache := [42 \<mapsto> \<lparr>hero_cache_entry.data = [],
                                                  hero_cache_entry.timestamp = 1699999000000\<rparr>]\<rparr>"
              42 1700000000000 "r_player exampleEnv" 1700000000250]
        getPlayerHeroes_cache [of initial 42 1700000000000 "r_player exampleEnv" 1700000000250]
  by (simp add: exampleEnv_def initial_def settled_def Let_def toHeroStat_def playedSome_def)

section \<open>Properties of the image route\<close>

lemma starts_iff_append: "starts s p = (\<exists>r. s = p @ r)"
  by (induction s p rule: starts.induct) auto

lemma proxyImage_first:
  "proxyImage fuel net k now cache url = Some (r, cache', evs)
     \<Longrightarrow> evs = [] \<or> hd evs = HttpsGet url"
  by (cases fuel)
     (auto simp: Let_def split: if_splits option.splits img_response.splits prod.splits)

lemma img_not_player: "playerMatch ''/api/img'' = None"
  by (simp add: playerMatch_def)

text \<open>
  What the test of the image route achieves where \<open>decodeURIComponent\<close> returns: with
  nothing after \<open>?url=\<close>, or a decoded text that does not start with
  \<open>https://liquipedia.net/\<close>, the answer is status 400, no request is made and no
  variable changes; and whenever the handler makes a request or answers with image
  bytes, the parameter decoded to a text with that prefix and the first request goes to
  that very URL.
\<close>

lemma img_guard_decoded:
  "pathOf req_url = ''/api/img'' \<Longrightarrow>
     ((imgUrlOf req_url = None \<or> imgUrlOf req_url = Some []
        \<or> (\<exists>u d. imgUrlOf req_url = Some u \<and> r_decodeURIComponent env u = Some d
                  \<and> \<not> starts d ''https://liquipedia.net/''))
      \<longrightarrow> handle env s req_url
            = (Responded \<lparr>status = 400, body = Text ''Bad request''\<rparr>, s, [], False))
     \<and> (\<forall>r s' evs started.
           handle env s req_url = (r, s', evs, started)
           \<and> (evs \<noteq> [] \<or> (\<exists>bytes. r = Responded \<lparr>status = 200, body = Bytes bytes\<rparr>))
           \<longrightarrow> (\<exists>u d. imgUrlOf req_url = Some u \<and> r_decodeURIComponent env u = Some d
                       \<and> starts d ''https://liquipedia.net/''
                       \<and> (evs = [] \<or> hd evs = HttpsGet d)))"
proof -
  assume p: "pathOf req_url = ''/api/img''"
  have h: "handle env s req_url =
     (case imgUrlOf req_url of
        None \<Rightarrow> (Responded \<lparr>status = 400, body = Text ''Bad request''\<rparr>, s, [], False)
      | Some imgUrl \<Rightarrow>
          if imgUrl = [] then
            (Responded \<lparr>status = 400, body = Text ''Bad request''\<rparr>, s, [], False)
          else (case r_decodeURIComponent env imgUrl of
            None \<Rightarrow> (Crashed, s, [], False)
          | Some decoded \<Rightarrow>
              if \<not> starts decoded ''https://liquipedia.net/'' then
                (Responded \<lparr>status = 400, body = Text ''Bad request''\<rparr>, s, [], False)
              else (case proxyImage (r_fuel env) (r_img env) 0 (r_now env) (imgCache s) decoded of
                None \<Rightarrow> (Waiting, s, [], False)
              | Some (Inr img, cache', evs) \<Rightarrow>
                  (Responded \<lparr>status = 200, body = Bytes (img_entry.data img)\<rparr>,
                   s\<lparr>imgCache := cache'\<rparr>, evs, False)
              | Some (Inl err, cache', evs) \<Rightarrow>
                  (Responded \<lparr>status = 502, body = Text ''Image fetch failed''\<rparr>,
                   s\<lparr>imgCache := cache'\<rparr>, evs, False))))"
    by (simp add: handle_def p img_not_player)
  have a: "(imgUrlOf req_url = None \<or> imgUrlOf req_url = Some []
        \<or> (\<exists>u d. imgUrlOf req_url = Some u \<and> r_decodeURIComponent env u = Some d
                  \<and> \<not> starts d ''https://liquipedia.net/''))
      \<longrightarrow> handle env s req_url
            = (Responded \<lparr>status = 400, body = Text ''Bad request''\<rparr>, s, [], False)"
    unfolding h by auto
  have b: "\<forall>r s' evs started.
           handle env s req_url = (r, s', evs, started)
           \<and> (evs \<noteq> [] \<or> (\<exists>bytes. r = Responded \<lparr>status = 200, body = Bytes bytes\<rparr>))
           \<longrightarrow> (\<exists>u d. imgUrlOf req_url = Some u \<and> r_decodeURIComponent env u = Some d
                       \<and> starts d ''https://liquipedia.net/''
                       \<and> (evs = [] \<or> hd evs = HttpsGet d))"
    unfolding h
    by (auto split: option.splits if_splits sum.splits prod.splits dest: proxyImage_first)
  from a b show ?thesis by blast
qed

lemma decode_malformed: "decodeURIComponent ''%E0%A4%A'' = None"
  by (simp add: decodeURIComponent.simps parseHexOctet_def hexBits_def leadingOnes_def
        inRange_def numeral_2_eq_2 numeral_3_eq_3)

text \<open>
  C5, where the code breaks it. A request to \<open>/api/img\<close> whose \<open>url\<close> parameter is
  present and is rejected by \<open>decodeURIComponent\<close> gets no answer at all: the error is
  raised in the test itself, before the \<open>try\<close> of the route, so no status 400 is
  written and the process ends. Nothing is fetched and no variable changes.
\<close>

theorem img_guard_uncaught:
  "pathOf req_url = ''/api/img'' \<Longrightarrow> imgUrlOf req_url = Some u \<Longrightarrow> u \<noteq> []
     \<Longrightarrow> r_decodeURIComponent env u = None
     \<Longrightarrow> handle env s req_url = (Crashed, s, [], False)
         \<and> fst (handle env s req_url) \<noteq> Responded \<lparr>status = 400, body = Text ''Bad request''\<rparr>"
  by (simp add: handle_def img_not_player)

theorem img_guard_uncaught_witness:
  "handle exampleEnv initial ''/api/img?url=%E0%A4%A'' = (Crashed, initial, [], False)"
proof -
  have p: "pathOf ''/api/img?url=%E0%A4%A'' = ''/api/img''"
    by (simp add: pathOf_def)
  have u: "imgUrlOf ''/api/img?url=%E0%A4%A'' = Some ''%E0%A4%A''"
    by (simp add: imgUrlOf_def nth_opt_def)
  have n: "''%E0%A4%A'' \<noteq> []"
    by simp
  have d: "r_decodeURIComponent exampleEnv ''%E0%A4%A'' = None"
    by (simp add: exampleEnv_def decode_malformed)
  from img_guard_uncaught [OF p u n d, of initial] show ?thesis by simp
qed

text \<open>
  The test looks at the first URL only: a redirect from the trusted host is followed to
  whatever host it names, and the bytes found there are served with status 200.
\<close>

lemma img_redirect_followed:
  "handle redirectEnv initial ''/api/img?url=https://liquipedia.net/logo.png''
     = (Responded \<lparr>status = 200, body = Bytes ''PNG''\<rparr>,
        initial\<lparr>imgCache := [''https://example.org/x.png'' \<mapsto>
                    \<lparr>img_entry.data = ''PNG'', contentType = ''image/png'',
                     img_entry.timestamp = 1700000000000\<rparr>]\<rparr>,
        [HttpsGet ''https://liquipedia.net/logo.png'', HttpsGet ''https://example.org/x.png''],
        False)"
  by (simp add: handle_def pathOf_def playerMatch_def imgUrlOf_def nth_opt_def redirectEnv_def
        exampleEnv_def initial_def eval_nat_numeral Let_def decodeURIComponent.simps)

section \<open>Properties of the scraper\<close>

lemma findPattern_Some:
  "findPattern lower al = Some k \<Longrightarrow>
     list_ex (\<lambda>(pattern, key). str_includes lower pattern \<or> str_includes pattern lower) al"
  by (induction lower al rule: findPattern.induct) (auto split: if_splits)

lemma findOurKey_Some: "findOurKey names = Some k \<Longrightarrow> \<exists>n \<in> set names. matchesTracked n"
  by (induction names) (auto simp: matchesTracked_def split: option.splits dest: findPattern_Some)

lemma scrapeBlock_Push_tracked:
  "scrapeBlock now b = Push e \<Longrightarrow> \<exists>n \<in> set (teamNamesOf b). matchesTracked n"
  unfolding scrapeBlock_def teamNamesOf_def
  by (cases "scanTeams (teamImg b) [] []")
     (auto split: if_splits option.splits dest: findOurKey_Some)

lemma scrapeBlock_tooOld: "tooOld now (data_timestamp b) \<Longrightarrow> scrapeBlock now b = Skip"
  unfolding scrapeBlock_def
  by (cases "scanTeams (teamImg b) [] []") (simp split: option.splits)

lemma scrapeBlock_clock:
  assumes "tooOld now' (data_timestamp b) = tooOld now (data_timestamp b)"
  shows "scrapeBlock now' b = scrapeBlock now b"
  unfolding scrapeBlock_def assms by (rule refl)

lemma scrapeLoop_set:
  "e \<in> set (fst (scrapeLoop now bs acc)) \<Longrightarrow>
     e \<in> set acc \<or> (\<exists>b \<in> set bs. scrapeBlock now b = Push e)"
proof (induction bs arbitrary: acc)
  case Nil
  then show ?case by simp
next
  case (Cons b bs)
  show ?case
  proof (cases "scrapeBlock now b")
    case Skip
    with Cons.prems have "e \<in> set (fst (scrapeLoop now bs acc))" by simp
    from Cons.IH[OF this] show ?thesis by auto
  next
    case (Push x)
    with Cons.prems have "e \<in> set (fst (scrapeLoop now bs (acc @ [x])))" by simp
    from Cons.IH[OF this] Push show ?thesis by auto
  next
    case Throw
    with Cons.prems show ?thesis by simp
  qed
qed

lemma fetchUpcoming_from_blocks:
  "e \<in> set (fst (fetchUpcoming wiki now)) \<Longrightarrow>
     \<exists>page b. wiki = Page page \<and> b \<in> set (matchBlocks page) \<and> scrapeBlock now b = Push e"
proof (cases wiki)
  case (Page page)
  assume e: "e \<in> set (fst (fetchUpcoming wiki now))"
  obtain up thrown where l: "scrapeLoop now (matchBlocks page) [] = (up, thrown)"
    by (cases "scrapeLoop now (matchBlocks page) []") auto
  from e Page l have "e \<in> set up"
    by (cases thrown) (auto simp: fetchUpcoming_def split: if_splits)
  then have "e \<in> set (fst (scrapeLoop now (matchBlocks page) []))" using l by simp
  from scrapeLoop_set[OF this] Page show ?thesis by auto
qed (simp_all add: fetchUpcoming_def)

lemma scrapeBlock_Push_fresh:
  "scrapeBlock now b = Push e \<Longrightarrow> \<not> tooOld now (data_timestamp b)"
  using scrapeBlock_tooOld[of now b] by auto

text \<open>
  C2, as the code has it. A block is pushed only if one of its team names matches a
  tracked team. A block whose timestamp is not 0 and lies more than 3600 seconds before
  the clock is skipped. For a block with no timestamp, or with the timestamp 0, the
  clock plays no part in what happens to it. Every entry of the scraper's result was
  pushed for some block of the page, and that block has a matching team name and a
  timestamp that is absent, 0, or not more than 3600 seconds in the past.
\<close>

theorem scraper_filters:
  "(\<forall>e. scrapeBlock now b = Push e \<longrightarrow> (\<exists>n \<in> set (teamNamesOf b). matchesTracked n))
   \<and> (\<forall>t. data_timestamp b = Some t \<and> t \<noteq> 0 \<and> 1000 * int t < now - 3600 * 1000
          \<longrightarrow> scrapeBlock now b = Skip)
   \<and> ((data_timestamp b = None \<or> data_timestamp b = Some 0)
          \<longrightarrow> scrapeBlock now' b = scrapeBlock now b)
   \<and> (\<forall>e \<in> set (fst (fetchUpcoming wiki now)).
         \<exists>page b'. wiki = Page page \<and> b' \<in> set (matchBlocks page)
           \<and> scrapeBlock now b' = Push e
           \<and> (\<exists>n \<in> set (teamNamesOf b'). matchesTracked n)
           \<and> (\<forall>t. data_timestamp b' = Some t \<longrightarrow> t = 0 \<or> now - 3600 * 1000 \<le> 1000 * int t))"
proof -
  have a: "\<forall>e. scrapeBlock now b = Push e \<longrightarrow> (\<exists>n \<in> set (teamNamesOf b). matchesTracked n)"
    using scrapeBlock_Push_tracked by blast
  have b: "\<forall>t. data_timestamp b = Some t \<and> t \<noteq> 0 \<and> 1000 * int t < now - 3600 * 1000
          \<longrightarrow> scrapeBlock now b = Skip"
    by (auto intro!: scrapeBlock_tooOld simp: tooOld_def)
  have c: "(data_timestamp b = None \<or> data_timestamp b = Some 0)
          \<longrightarrow> scrapeBlock now' b = scrapeBlock now b"
    by (auto intro!: scrapeBlock_clock simp: tooOld_def)
  have d: "\<forall>e \<in> set (fst (fetchUpcoming wiki now)).
         \<exists>page b'. wiki = Page page \<and> b' \<in> set (matchBlocks page)
           \<and> scrapeBlock now b' = Push e
           \<and> (\<exists>n \<in> set (teamNamesOf b'). matchesTracked n)
           \<and> (\<forall>t. data_timestamp b' = Some t \<longrightarrow> t = 0 \<or> now - 3600 * 1000 \<le> 1000 * int t)"
  proof
    fix e assume "e \<in> set (fst (fetchUpcoming wiki now))"
    from fetchUpcoming_from_blocks[OF this] obtain page b'
      where w: "wiki = Page page" "b' \<in> set (matchBlocks page)" "scrapeBlock now b' = Push e"
      by blast
    from scrapeBlock_Push_tracked[OF w(3)] have n: "\<exists>n \<in> set (teamNamesOf b'). matchesTracked n" .
    from scrapeBlock_Push_fresh[OF w(3)]
    have "\<forall>t. data_timestamp b' = Some t \<longrightarrow> t = 0 \<or> now - 3600 * 1000 \<le> 1000 * int t"
      by (auto simp: tooOld_def)
    with w n show "\<exists>page b'. wiki = Page page \<and> b' \<in> set (matchBlocks page)
           \<and> scrapeBlock now b' = Push e
           \<and> (\<exists>n \<in> set (teamNamesOf b'). matchesTracked n)
           \<and> (\<forall>t. data_timestamp b' = Some t \<longrightarrow> t = 0 \<or> now - 3600 * 1000 \<le> 1000 * int t)"
      by blast
  qed
  from a b c d show ?thesis by blast
qed

lemma teamLookup_value:
  "teamLookup =
     [(''xtreme gaming'', ''xg''), (''xg'', ''xg''), (''xtreme'', ''xg''),
      (''yakult brothers'', ''yb''), (''yb'', ''yb''), (''yakult'', ''yb''),
      (''vici gaming'', ''vg''), (''vg'', ''vg''), (''vici'', ''vg'')]"
  by (simp add: teamLookup_def TEAMS_def toLowerCase_def lower_char_def firstWord_def)

lemma epochBlock_scan:
  "scanTeams (teamImg epochBlock) [] [] =
     ([''Xtreme Gaming'', ''Team Spirit''],
      [(''Xtreme Gaming'', ''https://liquipedia.net/commons/images/xg_allmode.png''),
       (''Team Spirit'', ''https://liquipedia.net/commons/images/spirit.png'')])"
  by (simp add: epochBlock_def trim_def is_space_def Let_def js_length_def utf16_units_def
        noLogoYet_def setLogo_def objectPrototypeMembers_def)

lemma epochBlock_key: "findOurKey [''Xtreme Gaming'', ''Team Spirit''] = Some ''xg''"
  by (simp add: teamLookup_value toLowerCase_def lower_char_def)

lemma epochBlock_entry:
  "makeEntry epochBlock [''Xtreme Gaming'', ''Team Spirit'']
     [(''Xtreme Gaming'', ''https://liquipedia.net/commons/images/xg_allmode.png''),
      (''Team Spirit'', ''https://liquipedia.net/commons/images/spirit.png'')] ''xg''
   = Push \<lparr>teamKey = ''xg'', teamTag = ''XG'', opponent = ''Team Spirit'',
            tournament = ''DreamLeague Season 28 - Group Stage 1'', bestOf = ''BO3'',
            ourLogo = Some ''https://liquipedia.net/commons/images/xg_allmode.png'',
            oppLogo = Some ''https://liquipedia.net/commons/images/spirit.png'',
            timestamp = Some 0, dateStr = None\<rparr>"
  by (simp add: makeEntry_def epochBlock_def TEAMS_def parseTournament_def truthyPart_def
        nth_opt_def trim_def is_space_def isOurName_def toLowerCase_def lower_char_def Let_def)

lemma epochBlock_pushed:
  "scrapeBlock now epochBlock
   = Push \<lparr>teamKey = ''xg'', teamTag = ''XG'', opponent = ''Team Spirit'',
            tournament = ''DreamLeague Season 28 - Group Stage 1'', bestOf = ''BO3'',
            ourLogo = Some ''https://liquipedia.net/commons/images/xg_allmode.png'',
            oppLogo = Some ''https://liquipedia.net/commons/images/spirit.png'',
            timestamp = Some 0, dateStr = None\<rparr>"
proof -
  have t: "\<not> tooOld now (data_timestamp epochBlock)"
    by (simp add: tooOld_def epochBlock_def)
  show ?thesis
    unfolding scrapeBlock_def epochBlock_scan
    using t by (simp add: epochBlock_key epochBlock_entry del: findOurKey.simps)
qed

text \<open>
  C2 as stated fails for the timestamp 0: it lies far more than 3600 seconds before the
  clock, and the block is in the result all the same, because \<open>timestamp && ...\<close>
  treats 0 like a missing timestamp.
\<close>

theorem scraper_time_filter_counterexample:
  "data_timestamp epochBlock = Some 0
   \<and> 1000 * int 0 < 1700000000000 - 3600 * 1000
   \<and> fst (fetchUpcoming (Page \<lparr>html_length = 2000, matchBlocks = [epochBlock]\<rparr>) 1700000000000)
     = [\<lparr>teamKey = ''xg'', teamTag = ''XG'', opponent = ''Team Spirit'',
         tournament = ''DreamLeague Season 28 - Group Stage 1'', bestOf = ''BO3'',
         ourLogo = Some ''https://liquipedia.net/commons/images/xg_allmode.png'',
         oppLogo = Some ''https://liquipedia.net/commons/images/spirit.png'',
         timestamp = Some 0, dateStr = None\<rparr>]"
  by (simp add: fetchUpcoming_def epochBlock_pushed) (simp add: epochBlock_def)

theorem scraper_filters_witness:
  "scrapeBlock 1700000000000 oldBlock = Skip
   \<and> scrapeBlock 0 epochBlock = scrapeBlock 1700000000000 epochBlock
   \<and> (\<exists>n \<in> set (teamNamesOf epochBlock). matchesTracked n)"
  using scraper_filters [of 1700000000000 oldBlock 0 ParseFailed]
        scraper_filters [of 1700000000000 epochBlock 0 ParseFailed]
        epochBlock_pushed [of 1700000000000]
  by (simp add: oldBlock_def epochBlock_def)


section \<open>Properties of the series grouping\<close>

lemma runs_nonempty: "runs R (x # xs) \<noteq> []"
  by (cases xs) (auto split: list.splits)

lemma runs_concat: "concat (runs R xs) = xs"
  by (induction R xs rule: runs.induct) (auto split: list.splits)

lemma runs_within: "r \<in> set (runs R xs) \<Longrightarrow> r \<noteq> [] \<and> successively R r"
proof (induction R xs arbitrary: r rule: runs.induct)
  case (1 R)
  then show ?case by simp
next
  case (2 R x)
  then show ?case by simp
next
  case (3 R x y zs)
  obtain r0 rs where rr: "runs R (y # zs) = r0 # rs"
    using runs_nonempty[of R y zs] by (cases "runs R (y # zs)") auto
  have c: "concat (runs R (y # zs)) = y # zs" by (rule runs_concat)
  have r0: "r0 \<noteq> [] \<and> successively R r0" using 3 rr by auto
  then have h: "hd r0 = y" using c rr by (cases r0) auto
  show ?case
  proof (cases "R x y")
    case True
    with 3 rr have "r = x # r0 \<or> r \<in> set rs" by auto
    then show ?thesis
    proof
      assume "r = x # r0"
      with r0 h True show ?thesis by (cases r0) auto
    next
      assume "r \<in> set rs"
      with 3 rr show ?thesis by auto
    qed
  next
    case False
    with 3 show ?thesis by auto
  qed
qed

lemma runs_hd: "runs R (x # xs) = r # rs \<Longrightarrow> hd r = x"
  using runs_concat[of R "x # xs"] runs_within[of r R "x # xs"] by (cases r) auto

lemma runs_between: "successively (\<lambda>r r'. \<not> R (last r) (hd r')) (runs R xs)"
proof (induction R xs rule: runs.induct)
  case (1 R)
  then show ?case by simp
next
  case (2 R x)
  then show ?case by simp
next
  case (3 R x y zs)
  obtain r0 rs where rr: "runs R (y # zs) = r0 # rs"
    using runs_nonempty[of R y zs] by (cases "runs R (y # zs)") auto
  have r0: "r0 \<noteq> []" using runs_within[of r0 R "y # zs"] rr by simp
  have h: "hd r0 = y" using runs_hd[OF rr] .
  have ih: "successively (\<lambda>r r'. \<not> R (last r) (hd r')) (r0 # rs)"
    using 3 rr by (cases "R x y") auto
  show ?case
  proof (cases "R x y")
    case True
    have "last (x # r0) = last r0" using r0 by simp
    with ih True rr show ?thesis by (cases rs) auto
  next
    case False
    with ih rr h show ?thesis by simp
  qed
qed

lemma groupLoop_append: "groupLoop ms (acc @ [cur]) = acc @ groupLoop ms [cur]"
proof (induction ms arbitrary: acc cur)
  case Nil
  show ?case by simp
next
  case (Cons m ms)
  show ?case
  proof (cases "joins cur m")
    case True
    then show ?thesis using Cons.IH[of acc "pushGame cur m"] by simp
  next
    case False
    have "groupLoop ms ((acc @ [cur]) @ [newSeries m]) = (acc @ [cur]) @ groupLoop ms [newSeries m]"
      by (rule Cons.IH)
    moreover have "groupLoop ms ([cur] @ [newSeries m]) = [cur] @ groupLoop ms [newSeries m]"
      by (rule Cons.IH)
    ultimately show ?thesis using False by simp
  qed
qed

lemma wellFormed_newSeries: "wellFormed (newSeries m)"
  by (simp add: wellFormed_def newSeries_def Let_def)

lemma wellFormed_pushGame: "wellFormed cur \<Longrightarrow> joins cur m \<Longrightarrow> wellFormed (pushGame cur m)"
  by (auto simp: wellFormed_def pushGame_def joins_def)

lemma joins_iff: "wellFormed cur \<Longrightarrow> joins cur m = sameSeries (last (open_series.games cur)) m"
  by (auto simp: wellFormed_def joins_def sameSeries_def)

lemma pushGame_games: "open_series.games (pushGame cur m) = open_series.games cur @ [m]"
  by (simp add: pushGame_def)

lemma groupLoop_runs:
  "wellFormed cur \<Longrightarrow>
     map open_series.games (groupLoop ms [cur]) =
       (case runs sameSeries (last (open_series.games cur) # ms) of
          r # rs \<Rightarrow> (butlast (open_series.games cur) @ r) # rs
        | [] \<Rightarrow> [])"
proof (induction ms arbitrary: cur)
  case Nil
  then show ?case by (simp add: wellFormed_def)
next
  case (Cons m ms)
  let ?g = "last (open_series.games cur)"
  have ne: "open_series.games cur \<noteq> []" using Cons.prems by (simp add: wellFormed_def)
  obtain r0 rs where rr: "runs sameSeries (m # ms) = r0 # rs"
    using runs_nonempty[of sameSeries m ms] by (cases "runs sameSeries (m # ms)") auto
  show ?case
  proof (cases "joins cur m")
    case True
    then have s: "sameSeries ?g m" using joins_iff[OF Cons.prems] by simp
    have w: "wellFormed (pushGame cur m)" using Cons.prems True by (rule wellFormed_pushGame)
    have "map open_series.games (groupLoop ms [pushGame cur m]) = (open_series.games cur @ r0) # rs"
      using Cons.IH[OF w] rr by (simp add: pushGame_games)
    moreover have "butlast (open_series.games cur) @ (?g # r0) = open_series.games cur @ r0"
      using ne by (metis append_butlast_last_id append.assoc append_Cons append_Nil)
    ultimately show ?thesis using True s rr by simp
  next
    case False
    then have s: "\<not> sameSeries ?g m" using joins_iff[OF Cons.prems] by simp
    have "groupLoop ms ([cur] @ [newSeries m]) = [cur] @ groupLoop ms [newSeries m]"
      by (rule groupLoop_append)
    moreover have "map open_series.games (groupLoop ms [newSeries m]) = r0 # rs"
      using Cons.IH[where cur = "newSeries m", OF wellFormed_newSeries] rr
      by (simp add: newSeries_def Let_def)
    ultimately show ?thesis using False s rr ne by simp
  qed
qed

lemma groupLoop_wellFormed:
  "wellFormed cur \<Longrightarrow> s \<in> set (groupLoop ms [cur]) \<Longrightarrow> wellFormed s"
proof (induction ms arbitrary: cur)
  case Nil
  then show ?case by simp
next
  case (Cons m ms)
  show ?case
  proof (cases "joins cur m")
    case True
    with Cons.prems have "s \<in> set (groupLoop ms [pushGame cur m])" by simp
    with Cons.IH[OF wellFormed_pushGame[OF Cons.prems(1) True]] show ?thesis by simp
  next
    case False
    have "groupLoop ms ([cur] @ [newSeries m]) = [cur] @ groupLoop ms [newSeries m]"
      by (rule groupLoop_append)
    with False Cons.prems have "s = cur \<or> s \<in> set (groupLoop ms [newSeries m])" by auto
    with Cons.IH[OF wellFormed_newSeries] Cons.prems(1) show ?thesis by auto
  qed
qed

lemma groupLoop_all_runs: "map open_series.games (groupLoop ms []) = runs sameSeries ms"
proof (cases ms)
  case Nil
  then show ?thesis by simp
next
  case (Cons m ms')
  obtain r0 rs where rr: "runs sameSeries (m # ms') = r0 # rs"
    using runs_nonempty[of sameSeries m ms'] by (cases "runs sameSeries (m # ms')") auto
  show ?thesis
    using groupLoop_runs[where cur = "newSeries m" and ms = ms', OF wellFormed_newSeries] rr Cons
    by (simp add: newSeries_def Let_def)
qed

lemma groupLoop_all_wellFormed: "s \<in> set (groupLoop ms []) \<Longrightarrow> wellFormed s"
proof (cases ms)
  case Nil
  assume "s \<in> set (groupLoop ms [])"
  with Nil show ?thesis by simp
next
  case (Cons m ms')
  assume "s \<in> set (groupLoop ms [])"
  with Cons have "s \<in> set (groupLoop ms' [newSeries m])" by simp
  with groupLoop_wellFormed[OF wellFormed_newSeries] show ?thesis by blast
qed

lemma finishSeries_sel:
  "open_series.games (finishSeries s) = sort_key startOf (open_series.games s)"
  "open_series.wins (finishSeries s) = open_series.wins s"
  "losses (finishSeries s) = losses s"
  "boType (finishSeries s) = boLabel (length (open_series.games s)) (open_series.wins s) (losses s)"
  "seriesWon (finishSeries s) = (open_series.wins s > losses s)"
  by (simp_all add: finishSeries_def)

lemma filter_split_length: "length (filter P xs) + length (filter (\<lambda>x. \<not> P x) xs) = length xs"
  by (induction xs) auto

lemma finishSeries_counts:
  assumes "wellFormed s"
  shows "open_series.wins (finishSeries s) = length (filter didWin (open_series.games (finishSeries s)))
   \<and> losses (finishSeries s) = length (filter (\<lambda>m. \<not> didWin m) (open_series.games (finishSeries s)))
   \<and> open_series.wins (finishSeries s) + losses (finishSeries s)
       = length (open_series.games (finishSeries s))
   \<and> boType (finishSeries s) =
       (if length (open_series.games (finishSeries s)) = 1 then ''BO1''
        else if max (open_series.wins (finishSeries s)) (losses (finishSeries s)) = 2
                \<and> length (open_series.games (finishSeries s)) \<le> 3 then ''BO3''
        else if max (open_series.wins (finishSeries s)) (losses (finishSeries s)) = 3
                \<and> length (open_series.games (finishSeries s)) \<le> 5 then ''BO5''
        else show_nat (length (open_series.games (finishSeries s))) @ ''G'')
   \<and> seriesWon (finishSeries s) = (open_series.wins (finishSeries s) > losses (finishSeries s))"
proof -
  have w: "open_series.wins s = length (filter didWin (open_series.games s))"
    and l: "losses s = length (filter (\<lambda>m. \<not> didWin m) (open_series.games s))"
    using assms by (simp_all add: wellFormed_def)
  have t: "open_series.wins s + losses s = length (open_series.games s)"
    unfolding w l by (rule filter_split_length)
  show ?thesis
    using w l t by (simp add: finishSeries_sel filter_sort boLabel_def)
qed

text \<open>
  C8. The games of the series that \<open>groupMatchesIntoSeries\<close> returns are the maximal
  stretches of the matches, sorted by start time with the latest first, in which each
  match and the next have the same opposing team id and the same league name and start
  less than six hours apart (each stretch then put in ascending order): the stretches
  make up the sorted list, neighbours within a stretch belong together, and the last
  match of a stretch and the first of the next do not. In every series \<open>wins\<close> and
  \<open>losses\<close> count its won and its other games, and the label is \<open>BO1\<close> for one
  game, \<open>BO3\<close> when the larger count is 2 and there are at most 3 games, \<open>BO5\<close>
  when it is 3 and there are at most 5 games, and the number of games followed by
  \<open>G\<close> otherwise.
\<close>

theorem series_grouping:
  "map open_series.games (groupMatchesIntoSeries ms)
     = map (sort_key startOf) (runs sameSeries (sortedDesc ms))
   \<and> concat (runs sameSeries (sortedDesc ms)) = sortedDesc ms
   \<and> (\<forall>r \<in> set (runs sameSeries (sortedDesc ms)). r \<noteq> [] \<and> successively sameSeries r)
   \<and> successively (\<lambda>r r'. \<not> sameSeries (last r) (hd r')) (runs sameSeries (sortedDesc ms))
   \<and> sorted_wrt (\<lambda>a b. startOf a \<ge> startOf b) (sortedDesc ms)
   \<and> (\<forall>s \<in> set (groupMatchesIntoSeries ms).
         open_series.wins s = length (filter didWin (open_series.games s))
         \<and> losses s = length (filter (\<lambda>m. \<not> didWin m) (open_series.games s))
         \<and> open_series.wins s + losses s = length (open_series.games s)
         \<and> boType s =
             (if length (open_series.games s) = 1 then ''BO1''
              else if max (open_series.wins s) (losses s) = 2 \<and> length (open_series.games s) \<le> 3
                then ''BO3''
              else if max (open_series.wins s) (losses s) = 3 \<and> length (open_series.games s) \<le> 5
                then ''BO5''
              else show_nat (length (open_series.games s)) @ ''G'')
         \<and> seriesWon s = (open_series.wins s > losses s))"
proof -
  have g: "map open_series.games (groupMatchesIntoSeries ms)
     = map (sort_key startOf) (runs sameSeries (sortedDesc ms))"
  proof (cases "ms = []")
    case True
    then show ?thesis by (simp add: groupMatchesIntoSeries_def sortedDesc_def)
  next
    case False
    have "map open_series.games (map finishSeries (groupLoop (sortedDesc ms) []))
        = map (sort_key startOf) (map open_series.games (groupLoop (sortedDesc ms) []))"
      by (simp add: finishSeries_sel)
    with False show ?thesis by (simp add: groupMatchesIntoSeries_def groupLoop_all_runs)
  qed
  have s: "sorted_wrt (\<lambda>a b. startOf a \<ge> startOf b) (sortedDesc ms)"
  proof -
    have "sorted (map (\<lambda>m. - startOf m) (sortedDesc ms))"
      unfolding sortedDesc_def by (rule sorted_sort_key)
    then show ?thesis by (simp add: sorted_map)
  qed
  have c: "\<forall>s \<in> set (groupMatchesIntoSeries ms).
         open_series.wins s = length (filter didWin (open_series.games s))
         \<and> losses s = length (filter (\<lambda>m. \<not> didWin m) (open_series.games s))
         \<and> open_series.wins s + losses s = length (open_series.games s)
         \<and> boType s =
             (if length (open_series.games s) = 1 then ''BO1''
              else if max (open_series.wins s) (losses s) = 2 \<and> length (open_series.games s) \<le> 3
                then ''BO3''
              else if max (open_series.wins s) (losses s) = 3 \<and> length (open_series.games s) \<le> 5
                then ''BO5''
              else show_nat (length (open_series.games s)) @ ''G'')
         \<and> seriesWon s = (open_series.wins s > losses s)"
  proof
    fix s assume "s \<in> set (groupMatchesIntoSeries ms)"
    then obtain s0 where s0: "s0 \<in> set (groupLoop (sortedDesc ms) [])" "s = finishSeries s0"
      by (auto simp: groupMatchesIntoSeries_def split: if_splits)
    from groupLoop_all_wellFormed[OF s0(1)] have "wellFormed s0" .
    from finishSeries_counts[OF this] s0(2)
    show "open_series.wins s = length (filter didWin (open_series.games s))
         \<and> losses s = length (filter (\<lambda>m. \<not> didWin m) (open_series.games s))
         \<and> open_series.wins s + losses s = length (open_series.games s)
         \<and> boType s =
             (if length (open_series.games s) = 1 then ''BO1''
              else if max (open_series.wins s) (losses s) = 2 \<and> length (open_series.games s) \<le> 3
                then ''BO3''
              else if max (open_series.wins s) (losses s) = 3 \<and> length (open_series.games s) \<le> 5
                then ''BO5''
              else show_nat (length (open_series.games s)) @ ''G'')
         \<and> seriesWon s = (open_series.wins s > losses s)"
      by simp
  qed
  from g s c runs_concat[of sameSeries "sortedDesc ms"] runs_within[of _ sameSeries "sortedDesc ms"]
    runs_between[of sameSeries "sortedDesc ms"]
  show ?thesis by blast
qed

theorem series_grouping_witness:
  "map open_series.games (groupMatchesIntoSeries exampleMatches)
     = map (sort_key startOf) (runs sameSeries (sortedDesc exampleMatches))
   \<and> map (map match_id \<circ> open_series.games) (groupMatchesIntoSeries exampleMatches)
     = [[103], [101, 102]]
   \<and> map boType (groupMatchesIntoSeries exampleMatches) = [''BO1'', ''BO3'']"
proof -
  have "map (map match_id \<circ> open_series.games) (groupMatchesIntoSeries exampleMatches)
          = [[103], [101, 102]]
      \<and> map boType (groupMatchesIntoSeries exampleMatches) = [''BO1'', ''BO3'']"
    by (simp add: groupMatchesIntoSeries_def exampleMatches_def sortedDesc_def startOf_def
          joins_def pushGame_def newSeries_def didWin_def leagueOf_def finishSeries_def
          boLabel_def Let_def)
  with series_grouping [of exampleMatches] show ?thesis by blast
qed

end
